theory Spec2Isabelle
  imports Complex_Main "HOL-Library.Sublist"
begin

section \<open>Shared data: values, dictionaries, exceptions, time\<close>

text \<open>
  Python values that travel through dictionaries (\<open>Dict[str, Any]\<close>), tool arguments and
  decoded tool outputs. \<open>JNull\<close> is Python's \<open>None\<close>. Floats are modelled as exact
  rationals: rounding of binary floating point is outside the model.
\<close>

datatype json =
    JNull
  | JBool bool
  | JInt int
  | JNum rat
  | JStr string
  | JArr "json list"
  | JObj "(string \<times> json) list"

text \<open>A Python dict with string keys: an association list in insertion order, keys distinct.\<close>

type_synonym pydict = "(string \<times> json) list"

text \<open>\<open>d[k] = v\<close>: an existing key keeps its position, a new key goes to the end.\<close>

fun dict_set :: "'k \<Rightarrow> 'v \<Rightarrow> ('k \<times> 'v) list \<Rightarrow> ('k \<times> 'v) list" where
  "dict_set k v [] = [(k, v)]"
| "dict_set k v ((k', v') # d) = (if k' = k then (k, v) # d else (k', v') # dict_set k v d)"

text \<open>\<open>d.get(k)\<close>, with \<open>None\<close> for a missing key.\<close>

definition dict_get :: "('k \<times> 'v) list \<Rightarrow> 'k \<Rightarrow> 'v option" where
  "dict_get d k = map_of d k"

text \<open>\<open>d.get(k, dflt)\<close>.\<close>

definition dict_get_default :: "('k \<times> 'v) list \<Rightarrow> 'k \<Rightarrow> 'v \<Rightarrow> 'v" where
  "dict_get_default d k dflt = (case map_of d k of None \<Rightarrow> dflt | Some v \<Rightarrow> v)"

text \<open>\<open>k in d\<close>.\<close>

definition dict_has :: "('k \<times> 'v) list \<Rightarrow> 'k \<Rightarrow> bool" where
  "dict_has d k = (map_of d k \<noteq> None)"

text \<open>
  A raised Python exception deriving from \<open>Exception\<close>: its class name and its text.
  (\<open>BaseException\<close>s such as \<open>KeyboardInterrupt\<close> are not modelled.)
\<close>

datatype exn = Exn (exn_type: string) (exn_text: string)

text \<open>A \<open>datetime\<close>: microseconds since some epoch. \<open>total_seconds\<close> of a difference.\<close>

type_synonym datetime = int

definition total_seconds :: "int \<Rightarrow> rat" where
  "total_seconds micros = of_int micros / 1000000"

text \<open>\<open>sep.join(xs)\<close>.\<close>

fun join :: "string \<Rightarrow> string list \<Rightarrow> string" where
  "join sep [] = []"
| "join sep [x] = x"
| "join sep (x # y # ys) = x @ sep @ join sep (y # ys)"

text \<open>\<open>a / b\<close> on numbers: division by zero raises.\<close>

definition truediv :: "rat \<Rightarrow> rat \<Rightarrow> exn + rat" where
  "truediv a b = (if b = 0 then Inl (Exn ''ZeroDivisionError'' ''division by zero'') else Inr (a / b))"

text \<open>\<open>xs[i]\<close>: negative indices count from the end, out of range raises.\<close>

definition getitem :: "'a list \<Rightarrow> int \<Rightarrow> exn + 'a" where
  "getitem xs i =
     (if 0 \<le> i \<and> i < int (length xs) then Inr (xs ! nat i)
      else if i < 0 \<and> - int (length xs) \<le> i then Inr (xs ! nat (int (length xs) + i))
      else Inl (Exn ''IndexError'' ''list index out of range''))"

text \<open>
  \<open>round(x, 2)\<close>: to two decimals, ties to the even neighbour (on the exact value).
\<close>

definition round2 :: "rat \<Rightarrow> rat" where
  "round2 x =
     (let y = x * 100; f = \<lfloor>y\<rfloor>; d = y - of_int f
      in of_int (if d < 1 / 2 then f else if 1 / 2 < d then f + 1
                 else if even f then f else f + 1) / 100)"


section \<open>Strings\<close>

text \<open>
  Texts are modelled as ASCII strings. \<open>str.lower()\<close> and \<open>str.upper()\<close> change the
  26 letters and nothing else.
\<close>

definition lower_char :: "char \<Rightarrow> char" where
  "lower_char c =
     (case map_of (zip ''ABCDEFGHIJKLMNOPQRSTUVWXYZ'' ''abcdefghijklmnopqrstuvwxyz'') c of
        None \<Rightarrow> c | Some d \<Rightarrow> d)"

definition upper_char :: "char \<Rightarrow> char" where
  "upper_char c =
     (case map_of (zip ''abcdefghijklmnopqrstuvwxyz'' ''ABCDEFGHIJKLMNOPQRSTUVWXYZ'') c of
        None \<Rightarrow> c | Some d \<Rightarrow> d)"

definition lower :: "string \<Rightarrow> string" where
  "lower s = map lower_char s"

definition upper :: "string \<Rightarrow> string" where
  "upper s = map upper_char s"

text \<open>\<open>w in s\<close> for strings: \<open>w\<close> occurs in \<open>s\<close> as a contiguous piece.\<close>

definition contains :: "string \<Rightarrow> string \<Rightarrow> bool" where
  "contains s w = sublist w s"

text \<open>\<open>any(w in s for w in ws)\<close>.\<close>

definition any_in :: "string list \<Rightarrow> string \<Rightarrow> bool" where
  "any_in ws s = list_ex (contains s) ws"

definition is_digit :: "char \<Rightarrow> bool" where
  "is_digit c = (c \<in> set ''0123456789'')"

definition digit_value :: "char \<Rightarrow> nat" where
  "digit_value c =
     (case map_of (zip ''0123456789'' [0, 1, 2, 3, 4, 5, 6, 7, 8, 9]) c of
        None \<Rightarrow> 0 | Some d \<Rightarrow> d)"

text \<open>The number a string of decimal digits denotes.\<close>

definition nat_of_digits :: "string \<Rightarrow> nat" where
  "nat_of_digits ds = foldl (\<lambda>acc c. 10 * acc + digit_value c) 0 ds"

text \<open>\<open>str(n)\<close> for a natural number and for an integer.\<close>

fun str_nat :: "nat \<Rightarrow> string" where
  "str_nat n =
     (if n < 10 then [''0123456789'' ! n] else str_nat (n div 10) @ [''0123456789'' ! (n mod 10)])"

definition str_int :: "int \<Rightarrow> string" where
  "str_int i = (if i < 0 then ''-'' @ str_nat (nat (- i)) else str_nat (nat i))"

definition newline :: string where
  "newline = [CHR 0x0A]"

text \<open>\<open>s.find(c)\<close> and \<open>s.rfind(c)\<close> for a one-character needle; \<open>s[a:b]\<close> for
  \<open>0 \<le> a\<close> and \<open>0 \<le> b\<close>.\<close>

definition str_find :: "string \<Rightarrow> char \<Rightarrow> int" where
  "str_find s c = (if c \<in> set s then int (length (takeWhile (\<lambda>x. x \<noteq> c) s)) else - 1)"

definition str_rfind :: "string \<Rightarrow> char \<Rightarrow> int" where
  "str_rfind s c =
     (if c \<in> set s then int (length s) - 1 - int (length (takeWhile (\<lambda>x. x \<noteq> c) (rev s)))
      else - 1)"

definition slice :: "string \<Rightarrow> int \<Rightarrow> int \<Rightarrow> string" where
  "slice s a b = take (nat b - nat a) (drop (nat a) s)"

text \<open>Python truthiness of a value.\<close>

fun truthy :: "json \<Rightarrow> bool" where
  "truthy JNull = False"
| "truthy (JBool b) = b"
| "truthy (JInt i) = (i \<noteq> 0)"
| "truthy (JNum q) = (q \<noteq> 0)"
| "truthy (JStr s) = (s \<noteq> [])"
| "truthy (JArr xs) = (xs \<noteq> [])"
| "truthy (JObj kvs) = (kvs \<noteq> [])"


section \<open>Reasoning ledger (src/agent/reasoning.py)\<close>

datatype ReasoningStepType =
  ANALYSIS | PLANNING | TOOL_SELECTION | EXECUTION | SYNTHESIS | VERIFICATION | DECISION

text \<open>The \<open>value\<close> of each enum member.\<close>

fun step_type_value :: "ReasoningStepType \<Rightarrow> string" where
  "step_type_value ANALYSIS = ''analysis''"
| "step_type_value PLANNING = ''planning''"
| "step_type_value TOOL_SELECTION = ''tool_selection''"
| "step_type_value EXECUTION = ''execution''"
| "step_type_value SYNTHESIS = ''synthesis''"
| "step_type_value VERIFICATION = ''verification''"
| "step_type_value DECISION = ''decision''"

record ReasoningStep =
  step_number :: int
  step_type :: ReasoningStepType
  reasoning :: string
  timestamp :: datetime
  step_context :: pydict
  confidence :: rat
  alternatives_considered :: "string list"
  decision_factors :: "string list"

record ChainOfThoughtReasoner =
  reasoning_steps :: "ReasoningStep list"
  current_step :: int
  reasoning_session_id :: string

text \<open>
  \<open>__init__\<close> and \<open>clear_reasoning\<close>. \<open>fmt_session\<close> stands for
  \<open>strftime('%Y%m%d_%H%M%S')\<close>, \<open>now\<close> for the reading of \<open>datetime.now()\<close>.
\<close>

definition new_reasoner :: "(datetime \<Rightarrow> string) \<Rightarrow> datetime \<Rightarrow> ChainOfThoughtReasoner" where
  "new_reasoner fmt_session now =
     \<lparr>reasoning_steps = [], current_step = 0,
      reasoning_session_id = ''reasoning_'' @ fmt_session now\<rparr>"

definition clear_reasoning ::
  "(datetime \<Rightarrow> string) \<Rightarrow> datetime \<Rightarrow> ChainOfThoughtReasoner \<Rightarrow> ChainOfThoughtReasoner" where
  "clear_reasoning fmt_session now r =
     r\<lparr>reasoning_steps := [], current_step := 0,
       reasoning_session_id := ''reasoning_'' @ fmt_session now\<rparr>"

text \<open>\<open>x or []\<close> for an optional argument whose default is \<open>None\<close>.\<close>

definition or_empty :: "'a list option \<Rightarrow> 'a list" where
  "or_empty x = (case x of None \<Rightarrow> [] | Some v \<Rightarrow> v)"

text \<open>
  \<open>add_reasoning_step\<close>: bump the counter, build the step with the new counter value,
  append it. Returns the step and the updated ledger.
\<close>

definition add_reasoning_step ::
  "ReasoningStepType \<Rightarrow> string \<Rightarrow> pydict option \<Rightarrow> rat \<Rightarrow> string list option \<Rightarrow>
   string list option \<Rightarrow> datetime \<Rightarrow> ChainOfThoughtReasoner \<Rightarrow>
   ReasoningStep \<times> ChainOfThoughtReasoner" where
  "add_reasoning_step ty why ctx conf alts factors now r =
     (let r1 = r\<lparr>current_step := current_step r + 1\<rparr>;
          step = \<lparr>step_number = current_step r1, step_type = ty, reasoning = why,
                  timestamp = now, step_context = or_empty ctx, confidence = conf,
                  alternatives_considered = or_empty alts,
                  decision_factors = or_empty factors\<rparr>
      in (step, r1\<lparr>reasoning_steps := reasoning_steps r1 @ [step]\<rparr>))"

text \<open>The arguments of one \<open>add_reasoning_step\<close> call, for replaying a sequence of calls.\<close>

record AppendArgs =
  arg_type :: ReasoningStepType
  arg_reasoning :: string
  arg_context :: "pydict option"
  arg_confidence :: rat
  arg_alternatives :: "string list option"
  arg_factors :: "string list option"
  arg_now :: datetime

definition append_step :: "ChainOfThoughtReasoner \<Rightarrow> AppendArgs \<Rightarrow> ChainOfThoughtReasoner" where
  "append_step r a =
     snd (add_reasoning_step (arg_type a) (arg_reasoning a) (arg_context a) (arg_confidence a)
            (arg_alternatives a) (arg_factors a) (arg_now a) r)"

definition append_all :: "ChainOfThoughtReasoner \<Rightarrow> AppendArgs list \<Rightarrow> ChainOfThoughtReasoner" where
  "append_all r as = foldl append_step r as"

record ReasoningSummary =
  session_id :: string
  total_steps :: nat
  step_types :: "(string \<times> int) list"
  average_confidence :: rat
  reasoning_duration :: rat
  reasoning_quality :: string

text \<open>The counting loop of \<open>get_reasoning_summary\<close>: per-type counts and the confidence sum.\<close>

definition tally :: "(string \<times> int) list \<times> rat \<Rightarrow> ReasoningStep \<Rightarrow> (string \<times> int) list \<times> rat" where
  "tally acc step =
     (let v = step_type_value (step_type step)
      in (dict_set v (dict_get_default (fst acc) v 0 + 1) (fst acc), snd acc + confidence step))"

text \<open>
  \<open>get_reasoning_summary\<close>. The division and the two index reads are the places where
  Python could raise; each is written with its raising operation and the guard the
  source puts in front of it.
\<close>

definition get_reasoning_summary :: "ChainOfThoughtReasoner \<Rightarrow> exn + ReasoningSummary" where
  "get_reasoning_summary r =
     (let steps = reasoning_steps r;
          acc = foldl tally ([], 0) steps
      in case (if steps \<noteq> [] then truediv (snd acc) (of_nat (length steps)) else Inr 0) of
           Inl e \<Rightarrow> Inl e
         | Inr avg_confidence \<Rightarrow>
            (case (if 1 < length steps
                   then (case getitem steps (- 1) of
                           Inl e \<Rightarrow> Inl e
                         | Inr l \<Rightarrow> (case getitem steps 0 of
                              Inl e \<Rightarrow> Inl e
                            | Inr f \<Rightarrow> Inr (total_seconds (timestamp l - timestamp f))))
                   else Inr 0) of
               Inl e \<Rightarrow> Inl e
             | Inr duration \<Rightarrow>
                 Inr \<lparr>session_id = reasoning_session_id r,
                      total_steps = length steps,
                      step_types = fst acc,
                      average_confidence = round2 avg_confidence,
                      reasoning_duration = duration,
                      reasoning_quality =
                        (if 8 / 10 < avg_confidence then ''high''
                         else if 6 / 10 < avg_confidence then ''medium'' else ''low'')\<rparr>))"


text \<open>
  The typed helpers of the ledger that the coordinator calls. \<open>py_str\<close> stands for
  Python's \<open>str()\<close> of a value (used for the list of parameter names and for the
  result summary).
\<close>

definition analyze_scenario ::
  "string \<Rightarrow> datetime \<Rightarrow> ChainOfThoughtReasoner \<Rightarrow> ReasoningStep \<times> ChainOfThoughtReasoner" where
  "analyze_scenario scen now r =
     add_reasoning_step ANALYSIS
       (''Analyzing delivery scenario: '' @ scen
          @ ''. Identifying key problems, constraints, and stakeholders involved.'')
       (Some [(''scenario'', JStr scen)]) (9 / 10) None
       (Some [''scenario_complexity'', ''stakeholder_count'', ''time_constraints'']) now r"

text \<open>
  \<open>record_tool_execution\<close>. The result handed in by the coordinator is a decoded JSON
  value or \<open>None\<close>; none of these has an attribute \<open>success\<close>, so
  \<open>hasattr(result, 'success')\<close> is false and \<open>success\<close> is \<open>True\<close>.
\<close>

definition result_success :: "json \<Rightarrow> bool" where
  "result_success result = True"

definition record_tool_execution ::
  "(json \<Rightarrow> string) \<Rightarrow> string \<Rightarrow> pydict \<Rightarrow> json \<Rightarrow> datetime \<Rightarrow> ChainOfThoughtReasoner \<Rightarrow>
   ReasoningStep \<times> ChainOfThoughtReasoner" where
  "record_tool_execution py_str tname parameters result now r =
     (let ok = result_success result
      in add_reasoning_step EXECUTION
           (''Executed tool '' @ [CHR 0x27] @ tname @ [CHR 0x27] @ '' with parameters ''
              @ py_str (JArr (map (JStr \<circ> fst) parameters)) @ ''. ''
              @ ''Result: '' @ (if ok then ''Success'' else ''Failed'') @ ''. ''
              @ ''Gathering information for next decision.'')
           (Some [(''tool_name'', JStr tname), (''parameters'', JObj parameters),
                  (''success'', JBool ok),
                  (''result_summary'',
                     if truthy result then JStr (take 200 (py_str result)) else JNull)])
           (if ok then 9 / 10 else 5 / 10) None None now r)"

text \<open>\<open>verify_solution\<close>: \<open>solution.keys()\<close> raises unless the solution is a dict.\<close>

definition verify_solution ::
  "json \<Rightarrow> string list \<Rightarrow> datetime \<Rightarrow> ChainOfThoughtReasoner \<Rightarrow>
   exn + ReasoningStep \<times> ChainOfThoughtReasoner" where
  "verify_solution solution verification_criteria now r =
     (case solution of
        JObj kvs \<Rightarrow>
          Inr (add_reasoning_step VERIFICATION
                 (''Verifying solution against '' @ str_nat (length verification_criteria)
                    @ '' criteria. ''
                    @ ''Checking completeness, feasibility, and alignment with scenario requirements.'')
                 (Some [(''verification_criteria'', JArr (map JStr verification_criteria)),
                        (''solution_aspects'', JArr (map (JStr \<circ> fst) kvs))])
                 (9 / 10) None (Some verification_criteria) now r)
      | _ \<Rightarrow> Inl (Exn ''AttributeError'' ''object has no attribute keys''))"

definition make_final_decision ::
  "string \<Rightarrow> string \<Rightarrow> rat \<Rightarrow> datetime \<Rightarrow> ChainOfThoughtReasoner \<Rightarrow>
   ReasoningStep \<times> ChainOfThoughtReasoner" where
  "make_final_decision decision why conf now r =
     add_reasoning_step DECISION
       (''Final decision: '' @ decision @ ''. Rationale: '' @ why)
       (Some [(''final_decision'', JStr decision)]) conf None
       (Some [''solution_completeness'', ''stakeholder_satisfaction'',
              ''implementation_feasibility'']) now r"

text \<open>
  \<open>get_formatted_reasoning\<close>: \<open>fmt_hms\<close> is \<open>strftime("%H:%M:%S")\<close>, \<open>fmt_percent\<close> the
  format \<open>:.1%\<close>.
\<close>

definition format_step :: "(datetime \<Rightarrow> string) \<Rightarrow> (rat \<Rightarrow> string) \<Rightarrow> ReasoningStep \<Rightarrow> string" where
  "format_step fmt_hms fmt_percent step =
     ''Step '' @ str_int (step_number step) @ '' ['' @ upper (step_type_value (step_type step))
       @ ''] '' @ fmt_hms (timestamp step) @ '' ('' @ fmt_percent (confidence step)
       @ '' confidence)''
       @ newline @ ''  '' @ reasoning step
       @ (if alternatives_considered step \<noteq> []
          then newline @ ''  Alternatives considered: ''
                 @ join '', '' (alternatives_considered step)
          else [])
       @ (if decision_factors step \<noteq> []
          then newline @ ''  Decision factors: '' @ join '', '' (decision_factors step)
          else [])"

definition get_formatted_reasoning ::
  "(datetime \<Rightarrow> string) \<Rightarrow> (rat \<Rightarrow> string) \<Rightarrow> ChainOfThoughtReasoner \<Rightarrow> string list" where
  "get_formatted_reasoning fmt_hms fmt_percent r =
     map (format_step fmt_hms fmt_percent) (reasoning_steps r)"


section \<open>Tool contract (src/tools/base.py)\<close>

datatype ToolStatus = SUCCESS | FAILURE | PARTIAL | TIMEOUT

record ToolResult =
  success :: bool
  data :: pydict
  message :: string
  result_timestamp :: datetime
  execution_time_ms :: rat
  status :: ToolStatus
  tool_name :: string
  confidence_score :: "rat option"
  additional_context :: "pydict option"

text \<open>
  A tool instance. \<open>'w\<close> is whatever the tool's own logic reads and changes (the
  simulated external service, a spy's call log); \<open>execute\<close> either raises or returns a
  result, and returns the changed world. \<open>class_name\<close> is \<open>type(tool).__name__\<close>.
\<close>

record 'w BaseTool =
  name :: string
  description :: string
  category :: string
  required_parameters :: "string list"
  optional_parameters :: "string list"
  class_name :: string
  execute :: "pydict \<Rightarrow> 'w \<Rightarrow> (exn + ToolResult) \<times> 'w"

text \<open>The loop of \<open>validate_parameters\<close>: required names that are absent or bound to \<open>None\<close>.\<close>

definition missing_params :: "'w BaseTool \<Rightarrow> pydict \<Rightarrow> string list" where
  "missing_params tool kwargs =
     filter (\<lambda>param. \<not> dict_has kwargs param \<or> dict_get kwargs param = Some JNull)
       (required_parameters tool)"

definition validate_parameters :: "'w BaseTool \<Rightarrow> pydict \<Rightarrow> bool \<times> string" where
  "validate_parameters tool kwargs =
     (if missing_params tool kwargs \<noteq> []
      then (False, ''Missing required parameters: '' @ join '', '' (missing_params tool kwargs))
      else (True, []))"

text \<open>
  \<open>safe_execute\<close>. \<open>start_time\<close> is the clock reading on entry, \<open>end_time\<close> the reading
  taken after \<open>execute\<close> has returned or raised.
\<close>

definition safe_execute ::
  "'w BaseTool \<Rightarrow> pydict \<Rightarrow> datetime \<Rightarrow> datetime \<Rightarrow> 'w \<Rightarrow> ToolResult \<times> 'w" where
  "safe_execute tool kwargs start_time end_time w =
     (case validate_parameters tool kwargs of
        (is_valid, error_msg) \<Rightarrow>
          if \<not> is_valid
          then (\<lparr>success = False, data = [],
                 message = ''Parameter validation failed: '' @ error_msg,
                 result_timestamp = start_time, execution_time_ms = 0, status = FAILURE,
                 tool_name = name tool, confidence_score = None, additional_context = None\<rparr>, w)
          else (case execute tool kwargs w of
                  (Inr result, w') \<Rightarrow>
                    (result\<lparr>execution_time_ms := total_seconds (end_time - start_time) * 1000\<rparr>, w')
                | (Inl e, w') \<Rightarrow>
                    (\<lparr>success = False,
                      data = [(''error'', JStr (exn_text e)), (''error_type'', JStr (exn_type e))],
                      message = ''Tool execution failed: '' @ exn_text e,
                      result_timestamp = start_time,
                      execution_time_ms = total_seconds (end_time - start_time) * 1000,
                      status = FAILURE, tool_name = name tool,
                      confidence_score = None, additional_context = None\<rparr>, w')))"

text \<open>
  A spy tool: \<open>execute\<close> records the arguments of every invocation in the call log
  and succeeds.
\<close>

definition spy_tool :: "(pydict list) BaseTool" where
  "spy_tool =
     \<lparr>name = ''spy'', description = ''records its invocations'', category = ''general'',
      required_parameters = [''origin'', ''destination''], optional_parameters = [],
      class_name = ''SpyTool'',
      execute = (\<lambda>kwargs log.
        (Inr \<lparr>success = True, data = kwargs, message = ''ok'', result_timestamp = 0,
              execution_time_ms = 7, status = SUCCESS, tool_name = ''spy'',
              confidence_score = None, additional_context = None\<rparr>, log @ [kwargs]))\<rparr>"


section \<open>Tool registry (src/tools/registry.py)\<close>

record 'w ToolRegistry =
  tools :: "(string \<times> 'w BaseTool) list"
  tool_classes :: "(string \<times> string) list"

definition get_tool :: "'w ToolRegistry \<Rightarrow> string \<Rightarrow> 'w BaseTool option" where
  "get_tool reg nm = dict_get (tools reg) nm"

definition get_all_tools :: "'w ToolRegistry \<Rightarrow> (string \<times> 'w BaseTool) list" where
  "get_all_tools reg = tools reg"

definition list_tool_names :: "'w ToolRegistry \<Rightarrow> string list" where
  "list_tool_names reg = map fst (tools reg)"

definition is_tool_available :: "'w ToolRegistry \<Rightarrow> string \<Rightarrow> bool" where
  "is_tool_available reg nm = dict_has (tools reg) nm"

definition register_custom_tool :: "'w ToolRegistry \<Rightarrow> 'w BaseTool \<Rightarrow> 'w ToolRegistry" where
  "register_custom_tool reg tool =
     reg\<lparr>tools := dict_set (name tool) tool (tools reg),
         tool_classes := dict_set (name tool) (class_name tool) (tool_classes reg)\<rparr>"

text \<open>
  The eight tool classes of src/tools/logistics.py, as \<open>_initialize_tools\<close> instantiates
  them, in its order: identifier, category, required and optional parameter names and
  class name. The description texts and the simulated tool logic are taken as
  parameters (\<open>descr\<close> and \<open>logic\<close>, by tool name). The two assignments in the
  loop of \<open>_initialize_tools\<close> are those of \<open>register_custom_tool\<close>.
\<close>

definition tool_class_table :: "(string \<times> string \<times> string list \<times> string list \<times> string) list" where
  "tool_class_table =
     [(''check_traffic'', ''logistics'', [''origin'', ''destination''],
        [''current_time'', ''route_preference'', ''vehicle_type''], ''CheckTrafficTool''),
      (''get_merchant_status'', ''logistics'', [''merchant_id''],
        [''order_type'', ''priority_level''], ''GetMerchantStatusTool''),
      (''notify_customer'', ''communication'', [''customer_id'', ''message_type''],
        [''compensation_type'', ''compensation_amount'', ''estimated_delay'',
         ''alternative_options''], ''NotifyCustomerTool''),
      (''calculate_alternative_route'', ''logistics'',
        [''origin'', ''destination'', ''disruption_type''],
        [''vehicle_type'', ''priority_level'', ''time_constraint''],
        ''CalculateAlternativeRouteTool''),
      (''contact_recipient'', ''communication'', [''recipient_id'', ''contact_method''],
        [''message_content'', ''urgency_level'', ''delivery_time_window''],
        ''ContactRecipientTool''),
      (''find_nearby_locker'', ''logistics'', [''location'', ''package_size''],
        [''max_distance_km'', ''locker_type'', ''access_hours''], ''FindNearbyLockerTool''),
      (''initiate_mediation_flow'', ''dispute_resolution'', [''dispute_id'', ''parties_involved''],
        [''dispute_type'', ''severity_level'', ''evidence_available''],
        ''InitiateMediationFlowTool''),
      (''analyze_evidence'', ''dispute_resolution'', [''evidence_items'', ''dispute_context''],
        [''analysis_type'', ''bias_check'', ''cross_reference''], ''AnalyzeEvidenceTool'')]"

definition make_tool ::
  "(string \<Rightarrow> string) \<Rightarrow> (string \<Rightarrow> pydict \<Rightarrow> 'w \<Rightarrow> (exn + ToolResult) \<times> 'w) \<Rightarrow>
   string \<times> string \<times> string list \<times> string list \<times> string \<Rightarrow> 'w BaseTool" where
  "make_tool descr logic row =
     (case row of (nm, cat, req, opt, cls) \<Rightarrow>
        \<lparr>name = nm, description = descr nm, category = cat, required_parameters = req,
         optional_parameters = opt, class_name = cls, execute = logic nm\<rparr>)"

definition initialize_tools ::
  "(string \<Rightarrow> string) \<Rightarrow> (string \<Rightarrow> pydict \<Rightarrow> 'w \<Rightarrow> (exn + ToolResult) \<times> 'w) \<Rightarrow>
   'w ToolRegistry" where
  "initialize_tools descr logic =
     foldl (\<lambda>reg row. register_custom_tool reg (make_tool descr logic row))
       \<lparr>tools = [], tool_classes = []\<rparr> tool_class_table"


section \<open>Coordinator (src/agent/coordinator.py): data\<close>

text \<open>A tool call requested by the oracle: the dict with keys \<open>name\<close>, \<open>args\<close>, \<open>id\<close>.\<close>

record ToolCall =
  call_name :: string
  call_args :: pydict
  call_id :: "string option"

text \<open>Message content is a string or a list of content blocks.\<close>

datatype Content = Text string | Blocks json

datatype Message =
    SystemMessage Content
  | HumanMessage Content
  | AIMessage Content "ToolCall list"
  | ToolMessage Content string

fun content_of :: "Message \<Rightarrow> Content" where
  "content_of (SystemMessage c) = c"
| "content_of (HumanMessage c) = c"
| "content_of (AIMessage c calls) = c"
| "content_of (ToolMessage c tid) = c"

fun is_AIMessage :: "Message \<Rightarrow> bool" where
  "is_AIMessage (AIMessage c calls) = True"
| "is_AIMessage m = False"

text \<open>\<open>getattr(msg, "tool_calls", None)\<close>, with the empty list for "none".\<close>

fun tool_calls_of :: "Message \<Rightarrow> ToolCall list" where
  "tool_calls_of (AIMessage c calls) = calls"
| "tool_calls_of m = []"

text \<open>\<open>isinstance(m, ToolMessage) and m.tool_call_id == call_id\<close>.\<close>

fun answers_call :: "string option \<Rightarrow> Message \<Rightarrow> bool" where
  "answers_call cid (ToolMessage c tid) = (cid = Some tid)"
| "answers_call cid m = False"

record ToolCallRecord =
  rec_tool_name :: string
  rec_args :: pydict
  rec_tool_call_id :: "string option"
  rec_timestamp :: string

record GatheredDataEntry =
  entry_tool_name :: string
  entry_result :: json

text \<open>
  \<open>AgentState\<close>. \<open>solution_plan\<close> is \<open>JNull\<close> while it is \<open>None\<close>;
  \<open>state_reasoning_steps\<close> is the snapshot of the ledger (\<open>to_dict\<close> of each step).
\<close>

record AgentState =
  messages :: "Message list"
  scenario :: string
  state_reasoning_steps :: "ReasoningStep list"
  tool_calls_made :: "ToolCallRecord list"
  gathered_data :: "GatheredDataEntry list"
  solution_plan :: json
  current_iteration :: int
  max_iterations :: int
  state_confidence_score :: rat
  state_status :: string
  pending_tool_calls :: "ToolCall list option"

record ResolutionResult =
  result_success_flag :: bool
  result_scenario :: string
  result_reasoning_steps :: "string list"
  tools_used :: "string list"
  result_solution_plan :: json
  metrics :: pydict
  result_confidence_score :: rat
  execution_time_seconds :: rat

text \<open>
  What the coordinator does not define itself: the oracle with and without the tool
  catalogue (\<open>llm_with_tools\<close>, \<open>llm\<close>; each may raise), the prebuilt tool node of the
  graph library (given the transcript it returns the tool messages to append, or
  raises), the wall clock (its k-th reading), the JSON codec, Python's formatting
  functions and the prompt templates applied to their arguments.
\<close>

record Environment =
  llm_with_tools :: "Message list \<Rightarrow> exn + Message"
  llm :: "Message list \<Rightarrow> exn + Message"
  tool_node :: "Message list \<Rightarrow> exn + Message list"
  clock :: "nat \<Rightarrow> datetime"
  json_loads :: "string \<Rightarrow> json option"
  json_dumps :: "json \<Rightarrow> string"
  py_str :: "json \<Rightarrow> string"
  isoformat :: "datetime \<Rightarrow> string"
  strftime_hm :: "datetime \<Rightarrow> string"
  strftime_hms :: "datetime \<Rightarrow> string"
  strftime_session :: "datetime \<Rightarrow> string"
  format_percent :: "rat \<Rightarrow> string"
  system_prompt :: "string \<Rightarrow> string"
  synthesis_prompt :: "string \<Rightarrow> string \<Rightarrow> string"
  verification_prompt :: "string \<Rightarrow> string \<Rightarrow> string"

text \<open>
  The mutable surroundings of a run: the process-wide ledger and the number of clock
  readings taken so far.
\<close>

record World =
  reasoner :: ChainOfThoughtReasoner
  ticks :: nat

text \<open>Read the clock once and hand the reading to a ledger operation.\<close>

definition log_step ::
  "Environment \<Rightarrow> (datetime \<Rightarrow> ChainOfThoughtReasoner \<Rightarrow> ReasoningStep \<times> ChainOfThoughtReasoner) \<Rightarrow>
   World \<Rightarrow> World" where
  "log_step env f w =
     w\<lparr>reasoner := snd (f (clock env (ticks w)) (reasoner w)), ticks := Suc (ticks w)\<rparr>"

text \<open>
  \<open>self.tools\<close>, as far as the coordinator reads it: the registered names, in registry
  order, each with the tool's description.
\<close>

type_synonym ToolCatalog = "(string \<times> string) list"

definition coordinator_tools :: "'w ToolRegistry \<Rightarrow> ToolCatalog" where
  "coordinator_tools reg = map (\<lambda>(nm, tool). (nm, description tool)) (get_all_tools reg)"


section \<open>Coordinator: forced tool calls and response parsing\<close>

definition add_call :: "ToolCatalog \<Rightarrow> string \<Rightarrow> pydict \<Rightarrow> ToolCall list \<Rightarrow> ToolCall list" where
  "add_call tls nm args calls =
     (if dict_has tls nm
      then calls @ [\<lparr>call_name = nm, call_args = args,
                      call_id = Some (''forced_'' @ nm @ ''_'' @ str_nat (length calls + 1))\<rparr>]
      else calls)"

definition traffic_words :: "string list" where
  "traffic_words =
     [''traffic'', ''congestion'', ''road'', ''route'', ''accident'', ''obstruction'', ''delay'']"

definition merchant_words :: "string list" where
  "merchant_words = [''restaurant'', ''merchant'', ''kitchen'', ''prep'', ''order'']"

definition customer_words :: "string list" where
  "customer_words = [''customer'', ''recipient'', ''address'', ''contact'', ''notify'']"

text \<open>
  \<open>_create_forced_tool_calls\<close>. \<open>now_hm\<close> is \<open>datetime.now().strftime("%H:%M")\<close>.
\<close>

definition create_forced_tool_calls :: "ToolCatalog \<Rightarrow> string \<Rightarrow> string \<Rightarrow> ToolCall list" where
  "create_forced_tool_calls tls now_hm scen =
     (let s = lower scen;
          calls0 = [];
          calls1 =
            (if any_in traffic_words s
             then add_call tls ''calculate_alternative_route''
                    [(''origin'', JStr ''Current Location''),
                     (''destination'', JStr ''Delivery Address''),
                     (''disruption_type'', JStr ''traffic_obstruction'')]
                    (add_call tls ''check_traffic''
                       [(''origin'', JStr ''Current Location''),
                        (''destination'', JStr ''Delivery Address''),
                        (''current_time'', JStr now_hm)] calls0)
             else calls0);
          calls2 =
            (if any_in merchant_words s
             then add_call tls ''get_merchant_status'' [(''merchant_id'', JStr ''MERCHANT_001'')] calls1
             else calls1);
          calls3 =
            (if any_in customer_words s
             then add_call tls ''contact_recipient''
                    [(''recipient_id'', JStr ''RECIPIENT_001''),
                     (''contact_method'', JStr ''chat''),
                     (''urgency_level'', JStr ''high'')]
                    (add_call tls ''notify_customer''
                       [(''customer_id'', JStr ''CUSTOMER_001''),
                        (''message_type'', JStr ''delay_notification''),
                        (''estimated_delay'', JInt 15)] calls2)
             else calls2)
      in take 3 calls3)"

text \<open>
  \<open>re.search(r'(\d+)%', text)\<close>: the leftmost position where a run of digits, taken
  greedily, is followed by a percent sign; the result is group 1. A shorter run cannot
  match, since what follows it is a digit.
\<close>

definition match_percent_at :: "string \<Rightarrow> string option" where
  "match_percent_at s =
     (let digits = takeWhile is_digit s; rest = dropWhile is_digit s
      in if digits \<noteq> [] \<and> take 1 rest = ''%'' then Some digits else None)"

fun search_percent :: "string \<Rightarrow> string option" where
  "search_percent [] = None"
| "search_percent (c # cs) =
     (case match_percent_at (c # cs) of
        Some g \<Rightarrow> Some g
      | None \<Rightarrow> search_percent cs)"

text \<open>
  \<open>re.search(r'confidence[:\s]+([0-9.]+)', text, re.IGNORECASE)\<close>: the word in any
  letter case, at least one colon or whitespace character, then a greedy run of digits
  and dots (group 1). The two character classes are disjoint, so giving back characters
  cannot produce another match at the same position.
\<close>

definition is_space :: "char \<Rightarrow> bool" where
  "is_space c =
     (c \<in> set [CHR '' '', CHR 0x09, CHR 0x0A, CHR 0x0B, CHR 0x0C, CHR 0x0D,
                CHR 0x1C, CHR 0x1D, CHR 0x1E, CHR 0x1F])"

definition is_label_sep :: "char \<Rightarrow> bool" where
  "is_label_sep c = (c = CHR '':'' \<or> is_space c)"

definition is_number_char :: "char \<Rightarrow> bool" where
  "is_number_char c = (is_digit c \<or> c = CHR ''.'')"

definition match_confidence_at :: "string \<Rightarrow> string option" where
  "match_confidence_at s =
     (let rest = drop 10 s;
          seps = takeWhile is_label_sep rest;
          number = takeWhile is_number_char (dropWhile is_label_sep rest)
      in if lower (take 10 s) = ''confidence'' \<and> seps \<noteq> [] \<and> number \<noteq> []
         then Some number else None)"

fun search_confidence :: "string \<Rightarrow> string option" where
  "search_confidence [] = None"
| "search_confidence (c # cs) =
     (case match_confidence_at (c # cs) of
        Some g \<Rightarrow> Some g
      | None \<Rightarrow> search_confidence cs)"

text \<open>
  \<open>float(s)\<close> for a string of digits and dots, the only strings the two patterns
  capture: digits with at most one dot and at least one digit; \<open>None\<close> is ValueError.
\<close>

definition py_float :: "string \<Rightarrow> rat option" where
  "py_float s =
     (let whole = takeWhile is_digit s; rest = dropWhile is_digit s
      in if rest = [] then (if whole = [] then None else Some (of_nat (nat_of_digits whole)))
         else if take 1 rest = ''.'' \<and> list_all is_digit (drop 1 rest)
                 \<and> (whole \<noteq> [] \<or> drop 1 rest \<noteq> [])
         then Some (of_nat (nat_of_digits whole)
                    + of_nat (nat_of_digits (drop 1 rest)) / 10 ^ length (drop 1 rest))
         else None)"

text \<open>\<open>_extract_confidence_from_response\<close>, on a string.\<close>

definition extract_confidence_from_response :: "string \<Rightarrow> exn + rat" where
  "extract_confidence_from_response response_content =
     (case search_percent response_content of
        Some g \<Rightarrow>
          (case py_float g of
             Some v \<Rightarrow> Inr (v / 100)
           | None \<Rightarrow> Inl (Exn ''ValueError'' ''could not convert string to float''))
      | None \<Rightarrow>
          (case search_confidence response_content of
             Some g \<Rightarrow>
               (case py_float g of
                  Some v \<Rightarrow> Inr (min 1 v)
                | None \<Rightarrow> Inr (8 / 10))
           | None \<Rightarrow> Inr (8 / 10)))"

text \<open>The fixed fallback plan of \<open>_extract_solution_from_response\<close>.\<close>

definition fallback_solution :: json where
  "fallback_solution =
     JObj [(''immediate_actions'', JArr [JStr ''Analyze situation'', JStr ''Contact relevant parties'']),
           (''alternative_options'',
              JArr [JStr ''Option 1: Direct resolution'', JStr ''Option 2: Escalate'']),
           (''communication_plan'',
              JArr [JStr ''Notify customer'', JStr ''Update driver'', JStr ''Inform support'']),
           (''follow_up'', JArr [JStr ''Monitor resolution'', JStr ''Collect feedback'']),
           (''estimated_resolution_time'', JStr ''15-30 minutes''),
           (''success_probability'', JNum (85 / 100))]"

text \<open>
  \<open>_extract_solution_from_response\<close>: content that is not a string has no \<open>find\<close>; the
  AttributeError is swallowed like a decoding error.
\<close>

definition extract_solution_from_response :: "(string \<Rightarrow> json option) \<Rightarrow> Content \<Rightarrow> json" where
  "extract_solution_from_response loads response_content =
     (case response_content of
        Text s \<Rightarrow>
          (let start = str_find s CHR ''{''; stop = str_rfind s CHR ''}'' + 1
           in if 0 \<le> start \<and> start < stop
              then (case loads (slice s start stop) of
                      Some plan \<Rightarrow> plan
                    | None \<Rightarrow> fallback_solution)
              else fallback_solution)
      | Blocks b \<Rightarrow> fallback_solution)"


section \<open>Coordinator: the nodes of the workflow\<close>

text \<open>
  A node receives the state and the world and returns both, or raises; a raised
  exception leaves the world as it was at that moment.
\<close>

definition seed_transcript ::
  "Environment \<Rightarrow> ToolCatalog \<Rightarrow> AgentState \<times> World \<Rightarrow> AgentState \<times> World" where
  "seed_transcript env tls sw =
     (case sw of (s, w) \<Rightarrow>
        if messages s = []
        then (let tool_desc = join newline (map (\<lambda>(nm, d). ''- '' @ nm @ '': '' @ d) tls);
                  system_msg = SystemMessage (Text (system_prompt env tool_desc));
                  human_msg = HumanMessage (Text
                    (''Analyze and resolve this scenario using the REASONING PROCESS. ''
                       @ ''Call tools as needed to gather facts before proposing a solution.''
                       @ newline @ newline @ ''Scenario: '' @ scenario s));
                  w1 = log_step env (analyze_scenario (scenario s)) w;
                  w2 = log_step env
                         (add_reasoning_step PLANNING
                            (''Planning tool usage based on scenario; ''
                               @ ''LLM will select appropriate tools via function calling.'')
                            (Some [(''available_tools'', JArr (map (JStr \<circ> fst) tls))])
                            (85 / 100) None
                            (Some [''tool_effectiveness'', ''data_requirements''])) w1
              in (s\<lparr>messages := [system_msg, human_msg]\<rparr>, w2))
        else (s, w))"

text \<open>
  The first-iteration fallback of \<open>_call_model_node\<close>. The clock is read for the
  \<open>current_time\<close> argument exactly when a traffic keyword matched.
\<close>

definition force_tool_calls ::
  "Environment \<Rightarrow> ToolCatalog \<Rightarrow> AgentState \<times> World \<Rightarrow> AgentState \<times> World" where
  "force_tool_calls env tls sw =
     (case sw of (s, w) \<Rightarrow>
        (let forced_calls =
               create_forced_tool_calls tls (strftime_hm env (clock env (ticks w))) (scenario s);
             w1 = (if any_in traffic_words (lower (scenario s)) then w\<lparr>ticks := Suc (ticks w)\<rparr>
                   else w)
         in if forced_calls \<noteq> []
            then (s\<lparr>messages := messages s @
                      [AIMessage (Text ''Calling tools to gather critical facts before proposing a plan.'')
                         forced_calls]\<rparr>, w1)
            else (s, w1)))"

definition call_model_node ::
  "Environment \<Rightarrow> ToolCatalog \<Rightarrow> AgentState \<times> World \<Rightarrow> exn \<times> World + AgentState \<times> World" where
  "call_model_node env tls sw =
     (case seed_transcript env tls sw of (s1, w1) \<Rightarrow>
        (case llm_with_tools env (messages s1) of
           Inl e \<Rightarrow> Inl (e, w1)
         | Inr reply \<Rightarrow>
            (let ai_msg = (if is_AIMessage reply then reply else AIMessage (content_of reply) []);
                 s2 = s1\<lparr>messages := messages s1 @ [ai_msg]\<rparr>;
                 has_calls = (tool_calls_of ai_msg \<noteq> [])
             in case (if \<not> has_calls \<and> current_iteration s2 = 0
                      then force_tool_calls env tls (s2, w1) else (s2, w1)) of
                  (s3, w3) \<Rightarrow>
                    Inr (s3\<lparr>state_reasoning_steps := reasoning_steps (reasoner w3)\<rparr>, w3))))"

text \<open>The last assistant message of the transcript, if there is one.\<close>

definition last_ai_message :: "Message list \<Rightarrow> Message option" where
  "last_ai_message msgs = List.find is_AIMessage (rev msgs)"

definition find_tool_message :: "Message list \<Rightarrow> string option \<Rightarrow> Message option" where
  "find_tool_message msgs cid = List.find (answers_call cid) (rev msgs)"

text \<open>
  The decoding of one tool output in \<open>_after_tools_node\<close>: \<open>JNull\<close> (Python's \<open>None\<close>)
  when no tool message answers the call, the decoded value when \<open>json.loads\<close> succeeds,
  the wrapper \<open>{"raw": content}\<close> when it raises.
\<close>

definition parse_tool_output :: "Environment \<Rightarrow> Message option \<Rightarrow> json" where
  "parse_tool_output env tool_msg =
     (case tool_msg of
        None \<Rightarrow> JNull
      | Some m \<Rightarrow>
          (let content = (case content_of m of Text t \<Rightarrow> t | Blocks b \<Rightarrow> json_dumps env b)
           in case json_loads env content of
                Some v \<Rightarrow> v
              | None \<Rightarrow> JObj [(''raw'', JStr content)]))"

text \<open>The body of the loop over the tool calls of the last assistant message.\<close>

definition book_tool_call ::
  "Environment \<Rightarrow> AgentState \<times> World \<Rightarrow> ToolCall \<Rightarrow> AgentState \<times> World" where
  "book_tool_call env sw call =
     (case sw of (s, w) \<Rightarrow>
        (let tool_msg = find_tool_message (messages s) (call_id call);
             output_parsed = parse_tool_output env tool_msg;
             s1 = s\<lparr>tool_calls_made := tool_calls_made s @
                      [\<lparr>rec_tool_name = call_name call, rec_args = call_args call,
                        rec_tool_call_id = call_id call,
                        rec_timestamp = isoformat env (clock env (ticks w))\<rparr>]\<rparr>;
             w1 = w\<lparr>ticks := Suc (ticks w)\<rparr>;
             s2 = (if output_parsed \<noteq> JNull
                   then s1\<lparr>gathered_data := gathered_data s1 @
                            [\<lparr>entry_tool_name = call_name call, entry_result = output_parsed\<rparr>]\<rparr>
                   else s1);
             w2 = log_step env
                    (record_tool_execution (py_str env)
                       (if call_name call \<noteq> [] then call_name call else ''unknown_tool'')
                       (call_args call) output_parsed) w1
         in (s2, w2)))"

definition after_tools_node :: "Environment \<Rightarrow> AgentState \<times> World \<Rightarrow> AgentState \<times> World" where
  "after_tools_node env sw =
     (case (case last_ai_message (messages (fst sw)) of
              Some last_ai \<Rightarrow>
                if tool_calls_of last_ai \<noteq> []
                then foldl (book_tool_call env) sw (tool_calls_of last_ai) else sw
            | None \<Rightarrow> sw) of
        (s1, w1) \<Rightarrow>
          (s1\<lparr>current_iteration := current_iteration s1 + 1,
              state_reasoning_steps := reasoning_steps (reasoner w1)\<rparr>, w1))"

definition has_tool_calls :: "AgentState \<Rightarrow> string" where
  "has_tool_calls s =
     (case last_ai_message (messages s) of
        Some last_ai \<Rightarrow> if tool_calls_of last_ai \<noteq> [] then ''use_tools'' else ''synthesize''
      | None \<Rightarrow> if messages s \<noteq> [] then ''retry'' else ''synthesize'')"

definition should_continue_reasoning :: "AgentState \<Rightarrow> string" where
  "should_continue_reasoning s =
     (if max_iterations s \<le> current_iteration s then ''synthesize''
      else if 3 \<le> card (set (map entry_tool_name (gathered_data s))) then ''synthesize''
      else ''continue'')"

definition entry_json :: "GatheredDataEntry \<Rightarrow> json" where
  "entry_json entry = JObj [(''tool_name'', JStr (entry_tool_name entry)), (''result'', entry_result entry)]"

definition synthesis_node ::
  "Environment \<Rightarrow> AgentState \<times> World \<Rightarrow> exn \<times> World + AgentState \<times> World" where
  "synthesis_node env sw =
     (case sw of (s, w) \<Rightarrow>
        (let w1 = log_step env
                    (add_reasoning_step SYNTHESIS
                       ''Synthesizing solution plan from gathered tool outputs and scenario context.''
                       (Some [(''gathered_items'', JInt (int (length (gathered_data s))))])
                       (85 / 100) None
                       (Some [''data_completeness'', ''feasibility'', ''stakeholder_impact''])) w;
             prompt = synthesis_prompt env (scenario s)
                        (json_dumps env (JArr (map entry_json (gathered_data s))))
         in case llm env [SystemMessage (Text ''Create a comprehensive solution plan in JSON format.''),
                          HumanMessage (Text prompt)] of
              Inl e \<Rightarrow> Inl (e, w1)
            | Inr response \<Rightarrow>
                Inr (s\<lparr>solution_plan :=
                          extract_solution_from_response (json_loads env) (content_of response),
                        messages := messages s @ [response],
                        state_reasoning_steps := reasoning_steps (reasoner w1)\<rparr>, w1)))"

definition verification_criteria_list :: "string list" where
  "verification_criteria_list =
     [''addresses_all_problems'', ''considers_all_stakeholders'', ''feasible_implementation'',
      ''appropriate_alternatives'', ''proper_follow_up'']"

definition verification_node ::
  "Environment \<Rightarrow> AgentState \<times> World \<Rightarrow> exn \<times> World + AgentState \<times> World" where
  "verification_node env sw =
     (case sw of (s, w) \<Rightarrow>
        (case verify_solution (solution_plan s) verification_criteria_list
                (clock env (ticks w)) (reasoner w) of
           Inl e \<Rightarrow> Inl (e, w)
         | Inr (step, r1) \<Rightarrow>
            (let w1 = w\<lparr>reasoner := r1, ticks := Suc (ticks w)\<rparr>;
                 prompt = verification_prompt env (scenario s) (json_dumps env (solution_plan s))
             in case llm env [SystemMessage (Text ''Verify the solution and provide a confidence score.''),
                              HumanMessage (Text prompt)] of
                  Inl e \<Rightarrow> Inl (e, w1)
                | Inr response \<Rightarrow>
                   (case content_of response of
                      Blocks b \<Rightarrow> Inl (Exn ''TypeError'' ''expected string or bytes-like object'', w1)
                    | Text t \<Rightarrow>
                       (case extract_confidence_from_response t of
                          Inl e \<Rightarrow> Inl (e, w1)
                        | Inr conf \<Rightarrow>
                           (let w2 = log_step env
                                       (make_final_decision
                                          ''Solution verified and ready for implementation''
                                          (''Solution addresses scenario with ''
                                             @ format_percent env conf @ '' confidence'')
                                          conf) w1
                            in Inr (s\<lparr>state_confidence_score := conf,
                                      state_status := ''completed'',
                                      messages := messages s @ [response],
                                      state_reasoning_steps := reasoning_steps (reasoner w2)\<rparr>,
                                    w2)))))))"


section \<open>Coordinator: the graph and the run\<close>

datatype Node = CallModel | Tools | AfterTools | Synthesis | Verification | End

record Config =
  node :: Node
  agent :: AgentState
  world :: World

text \<open>The conditional edges of \<open>_create_workflow\<close>: the router's answer selects the next node.\<close>

definition call_model_edges :: "(string \<times> Node) list" where
  "call_model_edges = [(''use_tools'', Tools), (''synthesize'', Synthesis), (''retry'', CallModel)]"

definition after_tools_edges :: "(string \<times> Node) list" where
  "after_tools_edges = [(''continue'', CallModel), (''synthesize'', Synthesis)]"

definition route ::
  "(string \<times> Node) list \<Rightarrow> string \<Rightarrow> AgentState \<times> World \<Rightarrow> exn \<times> World + Config" where
  "route edges answer sw =
     (case map_of edges answer of
        Some n \<Rightarrow> Inr \<lparr>node = n, agent = fst sw, world = snd sw\<rparr>
      | None \<Rightarrow> Inl (Exn ''KeyError'' answer, snd sw))"

text \<open>One node of the graph and the edge that leaves it.\<close>

definition step :: "Environment \<Rightarrow> ToolCatalog \<Rightarrow> Config \<Rightarrow> exn \<times> World + Config" where
  "step env tls cfg =
     (case node cfg of
        CallModel \<Rightarrow>
          (case call_model_node env tls (agent cfg, world cfg) of
             Inl ew \<Rightarrow> Inl ew
           | Inr sw \<Rightarrow> route call_model_edges (has_tool_calls (fst sw)) sw)
      | Tools \<Rightarrow>
          (case tool_node env (messages (agent cfg)) of
             Inl e \<Rightarrow> Inl (e, world cfg)
           | Inr answers \<Rightarrow>
               Inr (cfg\<lparr>node := AfterTools,
                        agent := (agent cfg)\<lparr>messages := messages (agent cfg) @ answers\<rparr>\<rparr>))
      | AfterTools \<Rightarrow>
          (case after_tools_node env (agent cfg, world cfg) of
             sw \<Rightarrow> route after_tools_edges (should_continue_reasoning (fst sw)) sw)
      | Synthesis \<Rightarrow>
          (case synthesis_node env (agent cfg, world cfg) of
             Inl ew \<Rightarrow> Inl ew
           | Inr sw \<Rightarrow> Inr \<lparr>node = Verification, agent = fst sw, world = snd sw\<rparr>)
      | Verification \<Rightarrow>
          (case verification_node env (agent cfg, world cfg) of
             Inl ew \<Rightarrow> Inl ew
           | Inr sw \<Rightarrow> Inr \<lparr>node = End, agent = fst sw, world = snd sw\<rparr>)
      | End \<Rightarrow> Inr cfg)"

text \<open>The configuration after \<open>n\<close> nodes, unless one of them raised.\<close>

fun steps :: "Environment \<Rightarrow> ToolCatalog \<Rightarrow> nat \<Rightarrow> Config \<Rightarrow> exn \<times> World + Config" where
  "steps env tls 0 cfg = Inr cfg"
| "steps env tls (Suc n) cfg =
     (case step env tls cfg of
        Inl ew \<Rightarrow> Inl ew
      | Inr cfg' \<Rightarrow> steps env tls n cfg')"

text \<open>
  What is left to do, as a number: the nodes still ahead in the worst case. It bounds
  the length of a run.
\<close>

definition remaining :: "Config \<Rightarrow> nat" where
  "remaining cfg =
     (let loops = nat (max_iterations (agent cfg) - current_iteration (agent cfg))
      in case node cfg of
           End \<Rightarrow> 0
         | Verification \<Rightarrow> 1
         | Synthesis \<Rightarrow> 2
         | AfterTools \<Rightarrow> 3 + 3 * loops
         | Tools \<Rightarrow> 4 + 3 * loops
         | CallModel \<Rightarrow> 5 + 3 * loops)"

text \<open>The invariant of a run: the counter is below the ceiling while the run is in the
  loop, and at most the ceiling afterwards.\<close>

definition in_bounds :: "Config \<Rightarrow> bool" where
  "in_bounds cfg =
     (if node cfg = CallModel \<or> node cfg = Tools \<or> node cfg = AfterTools
      then current_iteration (agent cfg) < max_iterations (agent cfg)
      else current_iteration (agent cfg) \<le> max_iterations (agent cfg))"

definition initial_state :: "string \<Rightarrow> int \<Rightarrow> AgentState" where
  "initial_state scen max_iter =
     \<lparr>messages = [], scenario = scen, state_reasoning_steps = [], tool_calls_made = [],
      gathered_data = [], solution_plan = JNull, current_iteration = 0,
      max_iterations = max_iter, state_confidence_score = 0, state_status = ''processing'',
      pending_tool_calls = None\<rparr>"


section \<open>Coordinator: every run ends\<close>

text \<open>
  Each node leaves the iteration ceiling alone; only the bookkeeping node moves the
  counter, by one. After the deciding node the transcript holds an assistant message,
  so its router never answers "retry". Hence every node lowers \<open>remaining\<close>.
\<close>

lemma book_tool_call_frame:
  "current_iteration (fst (book_tool_call env sw c)) = current_iteration (fst sw)
   \<and> max_iterations (fst (book_tool_call env sw c)) = max_iterations (fst sw)
   \<and> messages (fst (book_tool_call env sw c)) = messages (fst sw)
   \<and> scenario (fst (book_tool_call env sw c)) = scenario (fst sw)"
  by (cases sw) (simp add: book_tool_call_def Let_def)

lemma foldl_book_tool_call_frame:
  "current_iteration (fst (foldl (book_tool_call env) sw cs)) = current_iteration (fst sw)
   \<and> max_iterations (fst (foldl (book_tool_call env) sw cs)) = max_iterations (fst sw)
   \<and> messages (fst (foldl (book_tool_call env) sw cs)) = messages (fst sw)
   \<and> scenario (fst (foldl (book_tool_call env) sw cs)) = scenario (fst sw)"
  by (induction cs arbitrary: sw) (simp_all add: book_tool_call_frame)

lemma after_tools_node_counter:
  "current_iteration (fst (after_tools_node env sw)) = current_iteration (fst sw) + 1
   \<and> max_iterations (fst (after_tools_node env sw)) = max_iterations (fst sw)"
  by (simp add: after_tools_node_def foldl_book_tool_call_frame
      split: option.splits prod.splits)
     (metis foldl_book_tool_call_frame fst_conv)

lemma seed_transcript_frame:
  "current_iteration (fst (seed_transcript env tls sw)) = current_iteration (fst sw)
   \<and> max_iterations (fst (seed_transcript env tls sw)) = max_iterations (fst sw)"
  by (cases sw) (simp add: seed_transcript_def Let_def)

lemma force_tool_calls_frame:
  "current_iteration (fst (force_tool_calls env tls sw)) = current_iteration (fst sw)
   \<and> max_iterations (fst (force_tool_calls env tls sw)) = max_iterations (fst sw)"
  by (cases sw) (simp add: force_tool_calls_def Let_def)

lemma last_ai_message_snoc:
  "last_ai_message (msgs @ [m]) = (if is_AIMessage m then Some m else last_ai_message msgs)"
  by (simp add: last_ai_message_def)

lemma force_tool_calls_last_ai:
  "last_ai_message (messages (fst sw)) \<noteq> None \<Longrightarrow>
   last_ai_message (messages (fst (force_tool_calls env tls sw))) \<noteq> None"
  by (cases sw) (simp add: force_tool_calls_def Let_def last_ai_message_snoc)

lemma call_model_node_frame:
  assumes "call_model_node env tls sw = Inr sw'"
  shows "current_iteration (fst sw') = current_iteration (fst sw)
         \<and> max_iterations (fst sw') = max_iterations (fst sw)
         \<and> last_ai_message (messages (fst sw')) \<noteq> None"
proof -
  obtain s1 w1 where seed: "seed_transcript env tls sw = (s1, w1)"
    by (cases "seed_transcript env tls sw")
  from seed_transcript_frame [of env tls sw] seed
  have s1: "current_iteration s1 = current_iteration (fst sw)"
    "max_iterations s1 = max_iterations (fst sw)" by simp_all
  from assms seed obtain reply where reply: "llm_with_tools env (messages s1) = Inr reply"
    by (auto simp: call_model_node_def split: sum.splits)
  define ai_msg where "ai_msg = (if is_AIMessage reply then reply else AIMessage (content_of reply) [])"
  define s2 where "s2 = s1\<lparr>messages := messages s1 @ [ai_msg]\<rparr>"
  have ai: "is_AIMessage ai_msg" by (simp add: ai_msg_def)
  have l2: "last_ai_message (messages (fst (s2, w1))) \<noteq> None"
    by (simp add: s2_def last_ai_message_snoc ai)
  define sw3 where "sw3 = (if tool_calls_of ai_msg = [] \<and> current_iteration s2 = 0
                      then force_tool_calls env tls (s2, w1) else (s2, w1))"
  have f3: "current_iteration (fst sw3) = current_iteration (fst sw)
            \<and> max_iterations (fst sw3) = max_iterations (fst sw)
            \<and> last_ai_message (messages (fst sw3)) \<noteq> None"
    using force_tool_calls_frame [of env tls "(s2, w1)"] force_tool_calls_last_ai [OF l2, of env tls] l2 s1
    by (simp add: sw3_def s2_def)
  from assms seed reply
  have "sw' = (fst sw3\<lparr>state_reasoning_steps := reasoning_steps (reasoner (snd sw3))\<rparr>, snd sw3)"
    by (auto simp: call_model_node_def Let_def sw3_def s2_def ai_msg_def split: prod.splits if_splits)
  with f3 show ?thesis by simp
qed

lemma has_tool_calls_after_call_model:
  "last_ai_message (messages s) \<noteq> None \<Longrightarrow>
   has_tool_calls s = ''use_tools'' \<or> has_tool_calls s = ''synthesize''"
  by (auto simp: has_tool_calls_def)

lemma should_continue_cases:
  "should_continue_reasoning s = ''continue'' \<or> should_continue_reasoning s = ''synthesize''"
  by (simp add: should_continue_reasoning_def)

lemma should_continue_below_ceiling:
  "should_continue_reasoning s = ''continue'' \<Longrightarrow> current_iteration s < max_iterations s"
  by (simp add: should_continue_reasoning_def split: if_splits)

lemma step_remaining:
  assumes "node cfg \<noteq> End" and "step env tls cfg = Inr cfg'"
  shows "remaining cfg' < remaining cfg"
proof (cases "node cfg")
  case CallModel
  from assms(2) CallModel obtain sw where
    cm: "call_model_node env tls (agent cfg, world cfg) = Inr sw"
    and r: "route call_model_edges (has_tool_calls (fst sw)) sw = Inr cfg'"
    by (auto simp: step_def split: sum.splits)
  from call_model_node_frame [OF cm]
  have fr: "current_iteration (fst sw) = current_iteration (agent cfg)"
    "max_iterations (fst sw) = max_iterations (agent cfg)"
    "last_ai_message (messages (fst sw)) \<noteq> None" by simp_all
  from has_tool_calls_after_call_model [OF fr(3)] r
  have "agent cfg' = fst sw \<and> (node cfg' = Tools \<or> node cfg' = Synthesis)"
    by (auto simp: route_def call_model_edges_def)
  with fr CallModel show ?thesis
    by (auto simp: remaining_def Let_def)
next
  case Tools
  with assms(2) show ?thesis
    by (auto simp: step_def remaining_def Let_def split: sum.splits)
next
  case AfterTools
  define sw where "sw = after_tools_node env (agent cfg, world cfg)"
  from assms(2) AfterTools
  have r: "route after_tools_edges (should_continue_reasoning (fst sw)) sw = Inr cfg'"
    by (simp add: step_def sw_def)
  from after_tools_node_counter [of env "(agent cfg, world cfg)"]
  have fr: "current_iteration (fst sw) = current_iteration (agent cfg) + 1"
    "max_iterations (fst sw) = max_iterations (agent cfg)"
    by (simp_all add: sw_def)
  from should_continue_cases [of "fst sw"] show ?thesis
  proof
    assume c: "should_continue_reasoning (fst sw) = ''continue''"
    with r have "agent cfg' = fst sw" "node cfg' = CallModel"
      by (auto simp: route_def after_tools_edges_def)
    with should_continue_below_ceiling [OF c] fr AfterTools show ?thesis
      by (simp add: remaining_def Let_def)
  next
    assume c: "should_continue_reasoning (fst sw) = ''synthesize''"
    with r have "node cfg' = Synthesis"
      by (auto simp: route_def after_tools_edges_def)
    with AfterTools show ?thesis
      by (simp add: remaining_def Let_def)
  qed
next
  case Synthesis
  with assms(2) show ?thesis
    by (auto simp: step_def remaining_def Let_def split: sum.splits)
next
  case Verification
  with assms(2) show ?thesis
    by (auto simp: step_def remaining_def Let_def split: sum.splits)
next
  case End
  with assms(1) show ?thesis by simp
qed

function run :: "Environment \<Rightarrow> ToolCatalog \<Rightarrow> Config \<Rightarrow> exn \<times> World + Config" where
  "run env tls cfg =
     (if node cfg = End then Inr cfg
      else (case step env tls cfg of
              Inl ew \<Rightarrow> Inl ew
            | Inr cfg' \<Rightarrow> run env tls cfg'))"
  by pat_completeness auto
termination
  by (relation "measure (\<lambda>(env, tls, cfg). remaining cfg)") (auto simp: step_remaining)

declare run.simps [simp del]

text \<open>\<open>workflow.ainvoke\<close>: from the entry point \<open>call_model\<close> to \<open>END\<close>.\<close>

definition ainvoke ::
  "Environment \<Rightarrow> ToolCatalog \<Rightarrow> AgentState \<times> World \<Rightarrow> exn \<times> World + AgentState \<times> World" where
  "ainvoke env tls sw =
     (case run env tls \<lparr>node = CallModel, agent = fst sw, world = snd sw\<rparr> of
        Inl ew \<Rightarrow> Inl ew
      | Inr cfg \<Rightarrow> Inr (agent cfg, world cfg))"

text \<open>
  The start of \<open>resolve_scenario\<close>: the clock is read for \<open>start_time\<close> and the
  ledger is cleared (one more reading).
\<close>

definition session_start :: "Environment \<Rightarrow> World \<Rightarrow> World" where
  "session_start env w0 =
     w0\<lparr>reasoner := clear_reasoning (strftime_session env)
                          (clock env (Suc (ticks w0))) (reasoner w0),
        ticks := Suc (Suc (ticks w0))\<rparr>"

text \<open>
  \<open>resolve_scenario\<close>: after the start the workflow runs; either branch reads the
  clock for \<open>end_time\<close>.
\<close>

definition resolve_scenario ::
  "Environment \<Rightarrow> ToolCatalog \<Rightarrow> string \<Rightarrow> int \<Rightarrow> World \<Rightarrow> ResolutionResult \<times> World" where
  "resolve_scenario env tls scen max_iter w0 =
     (let start_time = clock env (ticks w0);
          w1 = session_start env w0
      in case ainvoke env tls (initial_state scen max_iter, w1) of
           Inr (final_state, w2) \<Rightarrow>
             (let execution_time = total_seconds (clock env (ticks w2) - start_time)
              in (\<lparr>result_success_flag = (state_status final_state = ''completed''),
                   result_scenario = scen,
                   result_reasoning_steps =
                     get_formatted_reasoning (strftime_hms env) (format_percent env) (reasoner w2),
                   tools_used = map rec_tool_name (tool_calls_made final_state),
                   result_solution_plan =
                     (if truthy (solution_plan final_state) then solution_plan final_state
                      else JObj []),
                   metrics =
                     [(''total_reasoning_steps'',
                         JInt (int (length (state_reasoning_steps final_state)))),
                      (''tools_called'', JInt (int (length (tool_calls_made final_state)))),
                      (''resolution_time_seconds'', JNum execution_time),
                      (''iterations'', JInt (current_iteration final_state)),
                      (''confidence_score'', JNum (state_confidence_score final_state))],
                   result_confidence_score = state_confidence_score final_state,
                   execution_time_seconds = execution_time\<rparr>,
                  w2\<lparr>ticks := Suc (ticks w2)\<rparr>))
         | Inl (e, w2) \<Rightarrow>
             (let execution_time = total_seconds (clock env (ticks w2) - start_time)
              in (\<lparr>result_success_flag = False,
                   result_scenario = scen,
                   result_reasoning_steps = [''Error occurred: '' @ exn_text e],
                   tools_used = [],
                   result_solution_plan = JObj [(''error'', JStr (exn_text e))],
                   metrics =
                     [(''total_reasoning_steps'',
                         JInt (int (length (reasoning_steps (reasoner w2))))),
                      (''tools_called'', JInt 0),
                      (''resolution_time_seconds'', JNum execution_time),
                      (''iterations'', JInt 0),
                      (''confidence_score'', JNum 0)],
                   result_confidence_score = 0,
                   execution_time_seconds = execution_time\<rparr>,
                  w2\<lparr>ticks := Suc (ticks w2)\<rparr>)))"


section \<open>Sample surroundings for concrete runs\<close>

text \<open>
  A small environment to run the coordinator on: the oracle with tools is a parameter,
  the plain oracle states a confidence, the tool node answers every call of the last
  assistant message with the text \<open>not json\<close>, and the decoder is \<open>json.loads\<close>
  on the three texts that the examples hand to it: it decodes \<open>null\<close> and \<open>{}\<close> and
  fails on \<open>not json\<close>.
\<close>

definition sample_loads :: "string \<Rightarrow> json option" where
  "sample_loads text = map_of [(''null'', JNull), (''{}'', JObj [])] text"

definition call_answer :: "ToolCall \<Rightarrow> Message" where
  "call_answer call =
     ToolMessage (Text ''not json'') (case call_id call of Some i \<Rightarrow> i | None \<Rightarrow> [])"

definition sample_tool_node :: "Message list \<Rightarrow> exn + Message list" where
  "sample_tool_node msgs =
     (case last_ai_message msgs of
        Some m \<Rightarrow> Inr (map call_answer (tool_calls_of m))
      | None \<Rightarrow> Inr [])"

definition sample_env :: "(Message list \<Rightarrow> exn + Message) \<Rightarrow> Environment" where
  "sample_env oracle =
     \<lparr>llm_with_tools = oracle,
      llm = (\<lambda>msgs. Inr (AIMessage (Text ''I am 92% confident in this plan'') [])),
      tool_node = sample_tool_node,
      clock = (\<lambda>k. 1000 * int k),
      json_loads = sample_loads,
      json_dumps = (\<lambda>j. ''<json>''),
      py_str = (\<lambda>j. ''<value>''),
      isoformat = (\<lambda>t. str_int t),
      strftime_hm = (\<lambda>t. ''12:00''),
      strftime_hms = (\<lambda>t. ''12:00:00''),
      strftime_session = (\<lambda>t. str_int t),
      format_percent = (\<lambda>q. ''<percent>''),
      system_prompt = (\<lambda>tool_desc. tool_desc),
      synthesis_prompt = (\<lambda>scen results. scen @ results),
      verification_prompt = (\<lambda>scen solution. scen @ solution)\<rparr>"

text \<open>Two oracles: one that is unreachable, and one that asks for a traffic check
  every time.\<close>

definition faulty_oracle :: "Message list \<Rightarrow> exn + Message" where
  "faulty_oracle msgs = Inl (Exn ''ConnectionError'' ''oracle unreachable'')"

definition eager_oracle :: "Message list \<Rightarrow> exn + Message" where
  "eager_oracle msgs =
     Inr (AIMessage (Text [])
            [\<lparr>call_name = ''check_traffic'',
              call_args = [(''origin'', JStr ''A''), (''destination'', JStr ''B'')],
              call_id = Some (''call_'' @ str_nat (length msgs))\<rparr>])"

text \<open>The catalogue of the eight built-in tools, with empty descriptions.\<close>

definition sample_catalog :: ToolCatalog where
  "sample_catalog = map (\<lambda>row. (fst row, [])) tool_class_table"

definition sample_world :: World where
  "sample_world =
     \<lparr>reasoner = \<lparr>reasoning_steps = [], current_step = 0, reasoning_session_id = ''reasoning_0''\<rparr>,
      ticks = 0\<rparr>"


text \<open>A run with the oracle that always asks for a traffic check.\<close>

definition eager_start :: "int \<Rightarrow> Config" where
  "eager_start max_iter =
     \<lparr>node = CallModel, agent = initial_state ''late'' max_iter, world = sample_world\<rparr>"

text \<open>
  A state at the bookkeeping node in the first iteration: the assistant asked for three
  tools and the tool node has answered each call.
\<close>

definition three_calls :: "ToolCall list" where
  "three_calls =
     [\<lparr>call_name = ''check_traffic'', call_args = [], call_id = Some ''a''\<rparr>,
      \<lparr>call_name = ''notify_customer'', call_args = [], call_id = Some ''b''\<rparr>,
      \<lparr>call_name = ''get_merchant_status'', call_args = [], call_id = Some ''c''\<rparr>]"

definition answered_three :: Config where
  "answered_three =
     \<lparr>node = AfterTools,
      agent = (initial_state ''late'' 10)
        \<lparr>messages := [HumanMessage (Text ''late''), AIMessage (Text []) three_calls,
                       ToolMessage (Text ''{}'') ''a'', ToolMessage (Text ''not json'') ''b'',
                       ToolMessage (Text ''{}'') ''c'']\<rparr>,
      world = sample_world\<rparr>"

text \<open>
  One call whose answer is not JSON: the assistant asked for a traffic check and the
  tool message holds the text \<open>not json\<close>.
\<close>

definition unparsable_call :: ToolCall where
  "unparsable_call =
     \<lparr>call_name = ''check_traffic'',
      call_args = [(''origin'', JStr ''A''), (''destination'', JStr ''B'')],
      call_id = Some ''call_1''\<rparr>"

definition unparsable_state :: AgentState where
  "unparsable_state =
     (initial_state ''late'' 10)
       \<lparr>messages := [HumanMessage (Text ''late''), AIMessage (Text []) [unparsable_call],
                      ToolMessage (Text ''not json'') ''call_1'']\<rparr>"


section \<open>Properties of the reasoning ledger\<close>

lemma add_reasoning_step_steps:
  "reasoning_steps (snd (add_reasoning_step ty why ctx conf alts factors now r)) =
     reasoning_steps r @
       [\<lparr>step_number = current_step r + 1, step_type = ty, reasoning = why,
         timestamp = now, step_context = or_empty ctx, confidence = conf,
         alternatives_considered = or_empty alts, decision_factors = or_empty factors\<rparr>]"
  by (simp add: add_reasoning_step_def Let_def)

lemma add_reasoning_step_counter:
  "current_step (snd (add_reasoning_step ty why ctx conf alts factors now r)) = current_step r + 1"
  by (simp add: add_reasoning_step_def Let_def)

lemma append_all_snoc: "append_all r (as @ [a]) = append_step (append_all r as) a"
  by (simp add: append_all_def)

lemma append_all_counter: "current_step (append_all r as) = current_step r + int (length as)"
proof (induction as rule: rev_induct)
  case Nil
  show ?case by (simp add: append_all_def)
next
  case (snoc a as)
  then show ?case
    by (simp add: append_all_snoc append_step_def add_reasoning_step_counter)
qed

lemma append_all_numbers:
  "map step_number (reasoning_steps (append_all r as)) =
     map step_number (reasoning_steps r) @ map (\<lambda>k. current_step r + int k) [1..<Suc (length as)]"
proof (induction as rule: rev_induct)
  case Nil
  show ?case by (simp add: append_all_def)
next
  case (snoc a as)
  then show ?case
    by (simp add: append_all_snoc append_step_def add_reasoning_step_steps append_all_counter)
qed

lemma append_all_rationales:
  "map reasoning (reasoning_steps (append_all r as)) =
     map reasoning (reasoning_steps r) @ map arg_reasoning as"
proof (induction as rule: rev_induct)
  case Nil
  show ?case by (simp add: append_all_def)
next
  case (snoc a as)
  then show ?case
    by (simp add: append_all_snoc append_step_def add_reasoning_step_steps)
qed

text \<open>A freshly constructed ledger is a cleared one.\<close>

lemma clear_reasoning_fresh: "clear_reasoning fmt now r0 = new_reasoner fmt now"
  by (simp add: clear_reasoning_def new_reasoner_def)

text \<open>
  C7. In a ledger session (one that starts with \<open>clear_reasoning\<close>, as every resolution
  run does), after any sequence of append operations the stored steps carry the numbers
  1, 2, ..., n in this order, n being the number of appends, and they are stored in
  append order (the k-th stored step is the one of the k-th append).
\<close>

theorem step_numbers_gapless:
  "map step_number (reasoning_steps (append_all (clear_reasoning fmt now r0) as)) =
     map int [1..<Suc (length as)]
   \<and> map reasoning (reasoning_steps (append_all (clear_reasoning fmt now r0) as)) =
     map arg_reasoning as
   \<and> current_step (append_all (clear_reasoning fmt now r0) as) = int (length as)"
  by (simp add: append_all_numbers append_all_rationales append_all_counter clear_reasoning_def)

lemma getitem_last: "1 < length xs \<Longrightarrow> getitem xs (- 1) = Inr (last xs)"
  by (cases xs rule: rev_cases) (simp_all add: getitem_def nth_append)

lemma getitem_first: "1 < length xs \<Longrightarrow> getitem xs 0 = Inr (hd xs)"
  by (cases xs) (simp_all add: getitem_def)

text \<open>
  C10. \<open>get_reasoning_summary\<close> returns a summary for every ledger state: neither the
  division nor the index reads raise. With no recorded step the average confidence and
  the reasoning duration are 0; with exactly one step the reasoning duration is 0.
\<close>

theorem get_reasoning_summary_total:
  "(\<exists>s. get_reasoning_summary r = Inr s)
   \<and> (\<exists>s. get_reasoning_summary (r\<lparr>reasoning_steps := []\<rparr>) = Inr s
          \<and> total_steps s = 0 \<and> average_confidence s = 0 \<and> reasoning_duration s = 0)
   \<and> (\<exists>s. get_reasoning_summary (r\<lparr>reasoning_steps := [x]\<rparr>) = Inr s
          \<and> total_steps s = 1 \<and> reasoning_duration s = 0)"
proof (intro conjI)
  show "\<exists>s. get_reasoning_summary r = Inr s"
  proof (cases "1 < length (reasoning_steps r)")
    case True
    then have ne: "reasoning_steps r \<noteq> []" by auto
    show ?thesis
      using True ne
      by (simp add: get_reasoning_summary_def Let_def truediv_def getitem_last getitem_first)
  next
    case False
    then show ?thesis
      by (simp add: get_reasoning_summary_def Let_def truediv_def)
  qed
next
  show "\<exists>s. get_reasoning_summary (r\<lparr>reasoning_steps := []\<rparr>) = Inr s
          \<and> total_steps s = 0 \<and> average_confidence s = 0 \<and> reasoning_duration s = 0"
    by (simp add: get_reasoning_summary_def Let_def round2_def)
next
  show "\<exists>s. get_reasoning_summary (r\<lparr>reasoning_steps := [x]\<rparr>) = Inr s
          \<and> total_steps s = 1 \<and> reasoning_duration s = 0"
    by (simp add: get_reasoning_summary_def Let_def truediv_def)
qed


section \<open>Properties of the tool contract and the registry\<close>

lemma dict_get_dict_set:
  "dict_get (dict_set k v d) k' = (if k' = k then Some v else dict_get d k')"
  by (induction d) (auto simp: dict_get_def)

lemma dict_has_dict_set: "dict_has (dict_set k v d) k' = (k' = k \<or> dict_has d k')"
  by (simp add: dict_has_def dict_get_dict_set [unfolded dict_get_def])

lemma missing_params_member:
  "param \<in> set (missing_params tool kwargs) \<longleftrightarrow>
     param \<in> set (required_parameters tool) \<and>
     (dict_get kwargs param = None \<or> dict_get kwargs param = Some JNull)"
  by (auto simp: missing_params_def dict_has_def dict_get_def)

text \<open>
  C1. If some required parameter of the tool is absent from the argument map or bound
  to null, \<open>safe_execute\<close> returns the failure result (success false, status FAILURE,
  execution time 0, the message listing the missing names, the offending name among
  them), the tool's world is returned untouched, and the outcome is the same whatever
  the tool's \<open>execute\<close> operation is: it is not invoked.
\<close>

theorem safe_execute_missing_parameter:
  assumes "param \<in> set (required_parameters tool)"
    and "dict_get kwargs param = None \<or> dict_get kwargs param = Some JNull"
  shows "safe_execute tool kwargs start_time end_time w =
           (\<lparr>success = False, data = [],
             message = ''Parameter validation failed: Missing required parameters: ''
                         @ join '', '' (missing_params tool kwargs),
             result_timestamp = start_time, execution_time_ms = 0, status = FAILURE,
             tool_name = name tool, confidence_score = None, additional_context = None\<rparr>, w)
         \<and> param \<in> set (missing_params tool kwargs)
         \<and> safe_execute (tool\<lparr>execute := other\<rparr>) kwargs start_time end_time w =
             safe_execute tool kwargs start_time end_time w"
proof -
  from assms have mem: "param \<in> set (missing_params tool kwargs)"
    by (simp add: missing_params_member)
  then have ne: "missing_params tool kwargs \<noteq> []" by auto
  have same: "missing_params (tool\<lparr>execute := other\<rparr>) kwargs = missing_params tool kwargs"
    by (simp add: missing_params_def)
  show ?thesis
    using mem ne same by (simp add: safe_execute_def validate_parameters_def)
qed

theorem safe_execute_missing_parameter_witness:
  "safe_execute spy_tool [(''origin'', JStr ''A''), (''destination'', JNull)] 10 250 [] =
     (\<lparr>success = False, data = [],
       message = ''Parameter validation failed: Missing required parameters: destination'',
       result_timestamp = 10, execution_time_ms = 0, status = FAILURE,
       tool_name = ''spy'', confidence_score = None, additional_context = None\<rparr>, [])"
proof -
  have m: "missing_params spy_tool [(''origin'', JStr ''A''), (''destination'', JNull)]
             = [''destination'']"
    by (simp add: missing_params_def spy_tool_def dict_has_def dict_get_def)
  have req: "''destination'' \<in> set (required_parameters spy_tool)"
    by (simp add: spy_tool_def)
  have null: "dict_get [(''origin'', JStr ''A''), (''destination'', JNull)] ''destination''
                   = None
                 \<or> dict_get [(''origin'', JStr ''A''), (''destination'', JNull)] ''destination''
                   = Some JNull"
    by (simp add: dict_get_def)
  have nm: "name spy_tool = ''spy''"
    by (simp add: spy_tool_def)
  from safe_execute_missing_parameter [OF req null, THEN conjunct1, of 10 250 "[]"]
  show ?thesis
    by (simp add: m nm)
qed

text \<open>With both required parameters bound, the spy is invoked once and its log shows it.\<close>

lemma safe_execute_spy_runs:
  "snd (safe_execute spy_tool [(''origin'', JStr ''A''), (''destination'', JStr ''B'')] 10 250 [])
     = [[(''origin'', JStr ''A''), (''destination'', JStr ''B'')]]"
  by (simp add: safe_execute_def validate_parameters_def missing_params_def spy_tool_def
      dict_has_def dict_get_def)

text \<open>
  C9. Registering a tool at runtime leaves every entry under another name as it was: a
  name that was registered before the call and differs from the new tool's name is
  still registered and still yields the same instance.
\<close>

theorem register_custom_tool_frame:
  assumes "is_tool_available reg nm" and "nm \<noteq> name tool"
  shows "get_tool (register_custom_tool reg tool) nm = get_tool reg nm
         \<and> is_tool_available (register_custom_tool reg tool) nm"
  using assms
  by (simp add: get_tool_def is_tool_available_def register_custom_tool_def
      dict_get_dict_set dict_has_dict_set)

theorem register_custom_tool_frame_witness:
  "get_tool (register_custom_tool (initialize_tools (\<lambda>n. []) (\<lambda>n. execute spy_tool)) spy_tool)
     ''check_traffic''
   = get_tool (initialize_tools (\<lambda>n. []) (\<lambda>n. execute spy_tool)) ''check_traffic''
   \<and> get_tool (initialize_tools (\<lambda>n. []) (\<lambda>n. execute spy_tool)) ''check_traffic'' \<noteq> None"
proof -
  have avail: "is_tool_available (initialize_tools (\<lambda>n. []) (\<lambda>n. execute spy_tool))
                 ''check_traffic''"
    by (simp add: is_tool_available_def initialize_tools_def tool_class_table_def
        register_custom_tool_def make_tool_def dict_has_def)
  have diff: "''check_traffic'' \<noteq> name spy_tool"
    by (simp add: spy_tool_def)
  from register_custom_tool_frame [OF avail diff] avail show ?thesis
    by (simp add: is_tool_available_def get_tool_def dict_has_def dict_get_def)
qed

text \<open>Under the new tool's own name the lookup yields the new instance, replacing any older one.\<close>

lemma register_custom_tool_own_name:
  "get_tool (register_custom_tool reg tool) (name tool) = Some tool"
  by (simp add: get_tool_def register_custom_tool_def dict_get_dict_set)


section \<open>Properties of the coordinator\<close>

lemma synthesis_node_frame:
  "synthesis_node env sw = Inr sw' \<Longrightarrow>
   current_iteration (fst sw') = current_iteration (fst sw)
   \<and> max_iterations (fst sw') = max_iterations (fst sw)"
  by (cases sw) (auto simp: synthesis_node_def Let_def split: sum.splits)

lemma verification_node_frame:
  "verification_node env sw = Inr sw' \<Longrightarrow>
   current_iteration (fst sw') = current_iteration (fst sw)
   \<and> max_iterations (fst sw') = max_iterations (fst sw)"
  by (cases sw)
     (auto simp: verification_node_def Let_def split: sum.splits prod.splits Content.splits)

lemma route_result:
  "route edges answer sw = Inr cfg \<Longrightarrow>
   agent cfg = fst sw \<and> world cfg = snd sw \<and> map_of edges answer = Some (node cfg)"
  by (auto simp: route_def split: option.splits)

lemma step_in_bounds:
  assumes "in_bounds cfg" and "step env tls cfg = Inr cfg'"
  shows "in_bounds cfg' \<and> max_iterations (agent cfg') = max_iterations (agent cfg)"
proof (cases "node cfg")
  case CallModel
  from assms(2) CallModel obtain sw where
    cm: "call_model_node env tls (agent cfg, world cfg) = Inr sw"
    and r: "route call_model_edges (has_tool_calls (fst sw)) sw = Inr cfg'"
    by (auto simp: step_def split: sum.splits)
  from call_model_node_frame [OF cm] route_result [OF r] assms(1) CallModel
  show ?thesis
    by (auto simp: in_bounds_def)
next
  case Tools
  with assms show ?thesis
    by (auto simp: step_def in_bounds_def split: sum.splits)
next
  case AfterTools
  define sw where "sw = after_tools_node env (agent cfg, world cfg)"
  from assms(2) AfterTools
  have r: "route after_tools_edges (should_continue_reasoning (fst sw)) sw = Inr cfg'"
    by (simp add: step_def sw_def)
  from after_tools_node_counter [of env "(agent cfg, world cfg)"]
  have fr: "current_iteration (fst sw) = current_iteration (agent cfg) + 1"
    "max_iterations (fst sw) = max_iterations (agent cfg)"
    by (simp_all add: sw_def)
  note rr = route_result [OF r]
  from should_continue_cases [of "fst sw"] show ?thesis
  proof
    assume c: "should_continue_reasoning (fst sw) = ''continue''"
    with rr have "node cfg' = CallModel" by (simp add: after_tools_edges_def)
    with should_continue_below_ceiling [OF c] rr fr show ?thesis
      by (simp add: in_bounds_def)
  next
    assume c: "should_continue_reasoning (fst sw) = ''synthesize''"
    with rr have "node cfg' = Synthesis" by (simp add: after_tools_edges_def)
    with rr fr assms(1) AfterTools show ?thesis
      by (simp add: in_bounds_def)
  qed
next
  case Synthesis
  from assms(2) Synthesis obtain sw where
    sn: "synthesis_node env (agent cfg, world cfg) = Inr sw"
    and c: "cfg' = \<lparr>node = Verification, agent = fst sw, world = snd sw\<rparr>"
    by (auto simp: step_def split: sum.splits)
  from synthesis_node_frame [OF sn] c assms(1) Synthesis show ?thesis
    by (simp add: in_bounds_def)
next
  case Verification
  from assms(2) Verification obtain sw where
    vn: "verification_node env (agent cfg, world cfg) = Inr sw"
    and c: "cfg' = \<lparr>node = End, agent = fst sw, world = snd sw\<rparr>"
    by (auto simp: step_def split: sum.splits)
  from verification_node_frame [OF vn] c assms(1) Verification show ?thesis
    by (simp add: in_bounds_def)
next
  case End
  with assms show ?thesis by (simp add: step_def)
qed

lemma steps_in_bounds:
  "in_bounds cfg \<Longrightarrow> steps env tls n cfg = Inr cfg' \<Longrightarrow>
   in_bounds cfg' \<and> max_iterations (agent cfg') = max_iterations (agent cfg)"
proof (induction n arbitrary: cfg)
  case 0
  then show ?case by simp
next
  case (Suc n)
  from Suc.prems(2) obtain mid where
    first: "step env tls cfg = Inr mid" and rest: "steps env tls n mid = Inr cfg'"
    by (auto split: sum.splits)
  from step_in_bounds [OF Suc.prems(1) first] Suc.IH [OF _ rest] show ?case
    by simp
qed

lemma ceiling_forces_synthesis:
  "max_iterations s \<le> current_iteration s \<Longrightarrow> should_continue_reasoning s = ''synthesize''"
  by (simp add: should_continue_reasoning_def)

text \<open>What \<open>run\<close> returns is a configuration that \<open>steps\<close> reaches.\<close>

lemma run_is_steps: "run env tls cfg = Inr cfg' \<Longrightarrow> \<exists>n. steps env tls n cfg = Inr cfg'"
proof (induction env tls cfg rule: run.induct)
  case (1 env tls cfg)
  show ?case
  proof (cases "node cfg = End")
    case True
    with "1.prems" have "steps env tls 0 cfg = Inr cfg'"
      by (simp add: run.simps [of env tls cfg])
    then show ?thesis ..
  next
    case False
    with "1.prems" obtain mid where
      first: "step env tls cfg = Inr mid" and rest: "run env tls mid = Inr cfg'"
      by (auto simp: run.simps [of env tls cfg] split: sum.splits)
    from "1.IH" [OF False first rest] obtain n where "steps env tls n mid = Inr cfg'" ..
    with first have "steps env tls (Suc n) cfg = Inr cfg'"
      by simp
    then show ?thesis ..
  qed
qed

text \<open>
  C2 (as amended). In every run whose iteration ceiling is at least 1, at every node
  boundary the iteration counter is at most the ceiling, the ceiling itself never
  changes, and while the run is in the loop (deciding, invoking tools, bookkeeping
  before its increment) the counter is strictly below the ceiling. For every state
  whose counter has reached the ceiling the continuation decision is "synthesize",
  whatever the gathered data holds.
\<close>

theorem iteration_counter_bounded:
  assumes "1 \<le> max_iter"
    and "steps env tls n \<lparr>node = CallModel, agent = initial_state scen max_iter, world = w\<rparr>
           = Inr cfg"
  shows "current_iteration (agent cfg) \<le> max_iter
         \<and> max_iterations (agent cfg) = max_iter
         \<and> (node cfg = CallModel \<or> node cfg = Tools \<or> node cfg = AfterTools
              \<longrightarrow> current_iteration (agent cfg) < max_iter)
         \<and> (\<forall>s. max_iterations s \<le> current_iteration s
              \<longrightarrow> should_continue_reasoning s = ''synthesize'')"
proof -
  from assms(1)
  have start: "in_bounds \<lparr>node = CallModel, agent = initial_state scen max_iter, world = w\<rparr>"
    by (simp add: in_bounds_def initial_state_def)
  from steps_in_bounds [OF start assms(2)]
  have "in_bounds cfg" and "max_iterations (agent cfg) = max_iter"
    by (simp_all add: initial_state_def)
  then show ?thesis
    by (auto simp: in_bounds_def ceiling_forces_synthesis split: if_splits)
qed

theorem iteration_counter_bounded_witness:
  "\<not> isl (steps (sample_env eager_oracle) sample_catalog 3 (eager_start 1))
   \<and> node (projr (steps (sample_env eager_oracle) sample_catalog 3 (eager_start 1))) = Synthesis
   \<and> current_iteration (agent (projr (steps (sample_env eager_oracle) sample_catalog 3 (eager_start 1)))) = 1
   \<and> max_iterations (agent (projr (steps (sample_env eager_oracle) sample_catalog 3 (eager_start 1)))) = 1"
proof -
  have ok: "\<not> isl (steps (sample_env eager_oracle) sample_catalog 3 (eager_start 1))"
    by code_simp
  have nd: "node (projr (steps (sample_env eager_oracle) sample_catalog 3 (eager_start 1))) = Synthesis"
    by code_simp
  have it: "current_iteration (agent (projr (steps (sample_env eager_oracle) sample_catalog 3 (eager_start 1)))) = 1"
    by code_simp
  from ok have eq: "steps (sample_env eager_oracle) sample_catalog 3
           \<lparr>node = CallModel, agent = initial_state ''late'' 1, world = sample_world\<rparr>
         = Inr (projr (steps (sample_env eager_oracle) sample_catalog 3 (eager_start 1)))"
    by (simp add: eager_start_def)
  have le: "(1::int) \<le> 1" by simp
  from iteration_counter_bounded [OF le eq] ok nd it show ?thesis
    by simp
qed

text \<open>
  With ceiling 0 the first pass through the loop still happens: after the deciding
  node, the tool node and the bookkeeping node the counter is 1, above the ceiling.
\<close>

theorem iteration_counter_exceeds_zero_ceiling:
  "\<not> isl (steps (sample_env eager_oracle) sample_catalog 3 (eager_start 0))
   \<and> max_iterations (agent (projr (steps (sample_env eager_oracle) sample_catalog 3 (eager_start 0)))) = 0
   \<and> current_iteration (agent (projr (steps (sample_env eager_oracle) sample_catalog 3 (eager_start 0)))) = 1"
  by code_simp


lemma after_tools_step:
  assumes "node cfg = AfterTools" and "step env tls cfg = Inr cfg'"
  shows "agent cfg' = fst (after_tools_node env (agent cfg, world cfg))
         \<and> map_of after_tools_edges (should_continue_reasoning (agent cfg')) = Some (node cfg')"
proof -
  define sw where "sw = after_tools_node env (agent cfg, world cfg)"
  from assms have "route after_tools_edges (should_continue_reasoning (fst sw)) sw = Inr cfg'"
    by (simp add: step_def sw_def)
  from route_result [OF this] show ?thesis
    by (simp add: sw_def)
qed

lemma after_tools_step_returns:
  assumes "node cfg = AfterTools"
  shows "\<not> isl (step env tls cfg)"
  using assms should_continue_cases [of "fst (after_tools_node env (agent cfg, world cfg))"]
  by (auto simp: step_def route_def after_tools_edges_def)

lemma three_tools_decision:
  "3 \<le> card (set (map entry_tool_name (gathered_data s))) \<Longrightarrow>
   should_continue_reasoning s = ''synthesize''"
  by (simp add: should_continue_reasoning_def)

lemma book_tool_call_gathered:
  "gathered_data (fst (book_tool_call env sw call)) =
     (if parse_tool_output env (find_tool_message (messages (fst sw)) (call_id call)) = JNull
      then gathered_data (fst sw)
      else gathered_data (fst sw) @
             [\<lparr>entry_tool_name = call_name call,
               entry_result =
                 parse_tool_output env (find_tool_message (messages (fst sw)) (call_id call))\<rparr>])"
  by (cases sw) (simp add: book_tool_call_def Let_def)

lemma book_tool_call_messages:
  "messages (fst (book_tool_call env sw call)) = messages (fst sw)"
  by (simp add: book_tool_call_frame)

lemma after_tools_node_gathered:
  "gathered_data (fst (after_tools_node env sw)) =
     (case last_ai_message (messages (fst sw)) of
        Some last_ai \<Rightarrow> gathered_data (fst (foldl (book_tool_call env) sw (tool_calls_of last_ai)))
      | None \<Rightarrow> gathered_data (fst sw))"
  by (simp add: after_tools_node_def split: option.splits prod.splits)

text \<open>
  C3. When the bookkeeping node has run and the gathered data of the resulting state
  names at least 3 distinct tools, the continuation decision is "synthesize" and the
  edge taken leads to the synthesis node, not back to the deciding node.
\<close>

theorem three_tools_force_synthesis:
  assumes "node cfg = AfterTools" and "step env tls cfg = Inr cfg'"
    and "3 \<le> card (set (map entry_tool_name (gathered_data (agent cfg'))))"
  shows "should_continue_reasoning (agent cfg') = ''synthesize''
         \<and> node cfg' = Synthesis \<and> node cfg' \<noteq> CallModel"
proof -
  from three_tools_decision [OF assms(3)]
  have d: "should_continue_reasoning (agent cfg') = ''synthesize''" .
  with after_tools_step [OF assms(1,2)] show ?thesis
    by (simp add: after_tools_edges_def)
qed

lemma answered_three_gathered:
  "map entry_tool_name (gathered_data (fst (after_tools_node (sample_env oracle)
      (agent answered_three, world answered_three))))
   = [''check_traffic'', ''notify_customer'', ''get_merchant_status'']"
  by (simp add: after_tools_node_gathered answered_three_def initial_state_def
      last_ai_message_def three_calls_def book_tool_call_gathered book_tool_call_messages
      find_tool_message_def parse_tool_output_def sample_env_def sample_loads_def)

theorem three_tools_force_synthesis_witness:
  "node answered_three = AfterTools
   \<and> \<not> isl (step (sample_env eager_oracle) sample_catalog answered_three)
   \<and> card (set (map entry_tool_name (gathered_data (agent
         (projr (step (sample_env eager_oracle) sample_catalog answered_three)))))) = 3
   \<and> node (projr (step (sample_env eager_oracle) sample_catalog answered_three)) = Synthesis"
proof -
  let ?after = "projr (step (sample_env eager_oracle) sample_catalog answered_three)"
  have at: "node answered_three = AfterTools"
    by (simp add: answered_three_def)
  have ok: "\<not> isl (step (sample_env eager_oracle) sample_catalog answered_three)"
    by (rule after_tools_step_returns [OF at])
  then have st: "step (sample_env eager_oracle) sample_catalog answered_three = Inr ?after"
    by simp
  from after_tools_step [OF at st] answered_three_gathered [of eager_oracle]
  have names: "map entry_tool_name (gathered_data (agent ?after))
                 = [''check_traffic'', ''notify_customer'', ''get_merchant_status'']"
    by simp
  have three: "card (set (map entry_tool_name (gathered_data (agent ?after)))) = 3"
    by (simp add: names)
  then have ge: "3 \<le> card (set (map entry_tool_name (gathered_data (agent ?after))))"
    by simp
  from three_tools_force_synthesis [OF at st ge] at ok three show ?thesis
    by simp
qed


lemma book_tool_call_records:
  "tool_calls_made (fst (book_tool_call env sw call)) =
     tool_calls_made (fst sw) @
       [\<lparr>rec_tool_name = call_name call, rec_args = call_args call,
         rec_tool_call_id = call_id call,
         rec_timestamp = isoformat env (clock env (ticks (snd sw)))\<rparr>]"
  by (cases sw) (simp add: book_tool_call_def Let_def)

lemma book_tool_call_ledger:
  "\<exists>step. reasoning_steps (reasoner (snd (book_tool_call env sw call))) =
             reasoning_steps (reasoner (snd sw)) @ [step]
          \<and> step_type step = EXECUTION
          \<and> step_number step = current_step (reasoner (snd sw)) + 1"
  by (cases sw)
     (simp add: book_tool_call_def Let_def log_step_def record_tool_execution_def
        add_reasoning_step_steps)

lemma parse_tool_output_raw:
  "json_loads env t = None \<Longrightarrow>
   parse_tool_output env (Some (ToolMessage (Text t) tid)) = JObj [(''raw'', JStr t)]"
  by (simp add: parse_tool_output_def)

text \<open>
  C4 (as amended). For every dispatched tool call the bookkeeping appends the
  ToolCallRecord and one EXECUTION reasoning step. A gathered-data entry for the call
  is appended exactly when the decoded output is not null: none when no tool message
  answers the call, and when the answering message's text fails to parse the entry is
  appended with the raw-string wrapper as its result.
\<close>

theorem book_tool_call_appends:
  "tool_calls_made (fst (book_tool_call env (s, w) call)) =
     tool_calls_made s @
       [\<lparr>rec_tool_name = call_name call, rec_args = call_args call,
         rec_tool_call_id = call_id call, rec_timestamp = isoformat env (clock env (ticks w))\<rparr>]
   \<and> (\<exists>step. reasoning_steps (reasoner (snd (book_tool_call env (s, w) call))) =
                reasoning_steps (reasoner w) @ [step]
              \<and> step_type step = EXECUTION)
   \<and> gathered_data (fst (book_tool_call env (s, w) call)) =
       (if parse_tool_output env (find_tool_message (messages s) (call_id call)) = JNull
        then gathered_data s
        else gathered_data s @
               [\<lparr>entry_tool_name = call_name call,
                 entry_result =
                   parse_tool_output env (find_tool_message (messages s) (call_id call))\<rparr>])
   \<and> (find_tool_message (messages s) (call_id call) = None \<longrightarrow>
        gathered_data (fst (book_tool_call env (s, w) call)) = gathered_data s)
   \<and> (find_tool_message (messages s) (call_id call) = Some (ToolMessage (Text t) tid)
        \<and> json_loads env t = None \<longrightarrow>
        gathered_data (fst (book_tool_call env (s, w) call)) =
          gathered_data s @
            [\<lparr>entry_tool_name = call_name call, entry_result = JObj [(''raw'', JStr t)]\<rparr>])"
proof (intro conjI impI)
  show "tool_calls_made (fst (book_tool_call env (s, w) call)) =
     tool_calls_made s @
       [\<lparr>rec_tool_name = call_name call, rec_args = call_args call,
         rec_tool_call_id = call_id call, rec_timestamp = isoformat env (clock env (ticks w))\<rparr>]"
    using book_tool_call_records [of env "(s, w)" call] by simp
next
  show "\<exists>step. reasoning_steps (reasoner (snd (book_tool_call env (s, w) call))) =
                reasoning_steps (reasoner w) @ [step]
              \<and> step_type step = EXECUTION"
    using book_tool_call_ledger [of env "(s, w)" call] by auto
next
  show "gathered_data (fst (book_tool_call env (s, w) call)) =
       (if parse_tool_output env (find_tool_message (messages s) (call_id call)) = JNull
        then gathered_data s
        else gathered_data s @
               [\<lparr>entry_tool_name = call_name call,
                 entry_result =
                   parse_tool_output env (find_tool_message (messages s) (call_id call))\<rparr>])"
    using book_tool_call_gathered [of env "(s, w)" call] by simp
next
  assume "find_tool_message (messages s) (call_id call) = None"
  then show "gathered_data (fst (book_tool_call env (s, w) call)) = gathered_data s"
    using book_tool_call_gathered [of env "(s, w)" call]
    by (simp add: parse_tool_output_def)
next
  assume a: "find_tool_message (messages s) (call_id call) = Some (ToolMessage (Text t) tid)
        \<and> json_loads env t = None"
  then show "gathered_data (fst (book_tool_call env (s, w) call)) =
          gathered_data s @
            [\<lparr>entry_tool_name = call_name call, entry_result = JObj [(''raw'', JStr t)]\<rparr>]"
    using book_tool_call_gathered [of env "(s, w)" call]
    by (simp add: parse_tool_output_raw)
qed

lemma unparsable_found:
  "find_tool_message (messages unparsable_state) (call_id unparsable_call)
     = Some (ToolMessage (Text ''not json'') ''call_1'')"
  by (simp add: find_tool_message_def unparsable_state_def unparsable_call_def initial_state_def)

lemma unparsable_rejected: "json_loads (sample_env oracle) ''not json'' = None"
  by (simp add: sample_env_def sample_loads_def)

theorem book_tool_call_appends_witness:
  "find_tool_message (messages unparsable_state) (call_id unparsable_call)
     = Some (ToolMessage (Text ''not json'') ''call_1'')
   \<and> json_loads (sample_env eager_oracle) ''not json'' = None
   \<and> gathered_data (fst (book_tool_call (sample_env eager_oracle)
        (unparsable_state, sample_world) unparsable_call))
     = [\<lparr>entry_tool_name = ''check_traffic'',
         entry_result = JObj [(''raw'', JStr ''not json'')]\<rparr>]
   \<and> length (tool_calls_made (fst (book_tool_call (sample_env eager_oracle)
        (unparsable_state, sample_world) unparsable_call))) = 1"
proof -
  note th = book_tool_call_appends [of "sample_env eager_oracle" unparsable_state sample_world
      unparsable_call "''not json''" "''call_1''"]
  have g0: "gathered_data unparsable_state = []" "tool_calls_made unparsable_state = []"
    by (simp_all add: unparsable_state_def initial_state_def)
  have nm: "call_name unparsable_call = ''check_traffic''"
    by (simp add: unparsable_call_def)
  from th unparsable_found unparsable_rejected [of eager_oracle] g0 nm show ?thesis
    by (simp add: parse_tool_output_raw)
qed

text \<open>
  The specification's sentence fails here: the output did not parse as structured data, and a
  gathered-data entry (holding the raw text) was appended all the same.
\<close>

theorem raw_output_is_gathered:
  "json_loads (sample_env eager_oracle) ''not json'' = None
   \<and> find_tool_message (messages unparsable_state) (call_id unparsable_call)
       = Some (ToolMessage (Text ''not json'') ''call_1'')
   \<and> gathered_data unparsable_state = []
   \<and> gathered_data (fst (book_tool_call (sample_env eager_oracle)
        (unparsable_state, sample_world) unparsable_call))
     = [\<lparr>entry_tool_name = ''check_traffic'',
         entry_result = JObj [(''raw'', JStr ''not json'')]\<rparr>]"
  by (simp add: unparsable_found unparsable_rejected book_tool_call_gathered
      parse_tool_output_raw)
     (simp add: unparsable_state_def initial_state_def unparsable_call_def)


lemma contains_lower:
  assumes "contains scen w" and "lower w = w"
  shows "contains (lower scen) w"
proof -
  from assms(1) obtain before after where "scen = before @ w @ after"
    by (auto simp: contains_def sublist_def)
  then have "lower scen = lower before @ lower w @ lower after"
    by (simp add: lower_def)
  with assms(2) show ?thesis
    by (auto simp: contains_def sublist_def)
qed

lemma traffic_matches:
  assumes "contains scen ''traffic''"
  shows "any_in traffic_words (lower scen)"
proof -
  have "lower ''traffic'' = ''traffic''"
    by (simp add: lower_def lower_char_def)
  from contains_lower [OF assms this] show ?thesis
    by (simp add: any_in_def traffic_words_def)
qed

lemma customer_matches:
  assumes "contains scen ''customer''"
  shows "any_in customer_words (lower scen)"
proof -
  have "lower ''customer'' = ''customer''"
    by (simp add: lower_def lower_char_def)
  from contains_lower [OF assms this] show ?thesis
    by (simp add: any_in_def customer_words_def)
qed

lemma add_call_names:
  "map call_name (add_call tls nm args calls) =
     (if dict_has tls nm then map call_name calls @ [nm] else map call_name calls)"
  by (simp add: add_call_def)

lemma forced_calls_capped: "length (create_forced_tool_calls tls now_hm scen) \<le> 3"
  by (simp add: create_forced_tool_calls_def Let_def)

lemma forced_call_names:
  assumes "contains scen ''traffic''" and "contains scen ''customer''"
    and "dict_has tls ''check_traffic''" and "dict_has tls ''calculate_alternative_route''"
    and "dict_has tls ''get_merchant_status''" and "dict_has tls ''notify_customer''"
  shows "map call_name (create_forced_tool_calls tls now_hm scen) =
           (if any_in merchant_words (lower scen)
            then [''check_traffic'', ''calculate_alternative_route'', ''get_merchant_status'']
            else [''check_traffic'', ''calculate_alternative_route'', ''notify_customer''])"
  using traffic_matches [OF assms(1)] customer_matches [OF assms(2)] assms(3-6)
  by (simp add: create_forced_tool_calls_def Let_def take_map [symmetric] add_call_names)

text \<open>
  C5 (as amended). With the built-in traffic, merchant and customer tools registered,
  for every scenario text that contains "traffic" and "customer" the forced calls are at
  most 3 and start with check_traffic and calculate_alternative_route; the third call
  is notify_customer when the lower-cased text contains none of the merchant keywords
  (restaurant, merchant, kitchen, prep, order) and get_merchant_status when it contains
  one.
\<close>

theorem forced_calls_for_traffic_and_customer:
  assumes "contains scen ''traffic''" and "contains scen ''customer''"
    and "dict_has tls ''check_traffic''" and "dict_has tls ''calculate_alternative_route''"
    and "dict_has tls ''get_merchant_status''" and "dict_has tls ''notify_customer''"
  shows "map call_name (create_forced_tool_calls tls now_hm scen) =
           (if any_in merchant_words (lower scen)
            then [''check_traffic'', ''calculate_alternative_route'', ''get_merchant_status'']
            else [''check_traffic'', ''calculate_alternative_route'', ''notify_customer''])
         \<and> length (create_forced_tool_calls tls now_hm scen) \<le> 3"
  using forced_call_names [OF assms] forced_calls_capped [of tls now_hm scen]
  by simp

lemma sample_catalog_names:
  "map fst sample_catalog =
     [''check_traffic'', ''get_merchant_status'', ''notify_customer'',
      ''calculate_alternative_route'', ''contact_recipient'', ''find_nearby_locker'',
      ''initiate_mediation_flow'', ''analyze_evidence'']"
  by (simp add: sample_catalog_def tool_class_table_def)

lemma registry_catalog_names:
  "map fst (coordinator_tools (initialize_tools descr logic)) = map fst sample_catalog"
  by (simp add: sample_catalog_names)
     (simp add: coordinator_tools_def get_all_tools_def initialize_tools_def
        tool_class_table_def register_custom_tool_def make_tool_def)

lemma sample_catalog_has:
  "dict_has sample_catalog ''check_traffic''"
  "dict_has sample_catalog ''calculate_alternative_route''"
  "dict_has sample_catalog ''get_merchant_status''"
  "dict_has sample_catalog ''notify_customer''"
  by (simp_all add: dict_has_def sample_catalog_def tool_class_table_def)

text \<open>A text with the two words and no merchant keyword.\<close>

theorem forced_calls_for_traffic_and_customer_witness:
  "contains ''Heavy traffic, tell the customer'' ''traffic''
   \<and> contains ''Heavy traffic, tell the customer'' ''customer''
   \<and> map call_name (create_forced_tool_calls sample_catalog ''12:00''
         ''Heavy traffic, tell the customer'')
       = [''check_traffic'', ''calculate_alternative_route'', ''notify_customer'']
   \<and> length (create_forced_tool_calls sample_catalog ''12:00''
         ''Heavy traffic, tell the customer'') \<le> 3"
proof -
  have t: "contains ''Heavy traffic, tell the customer'' ''traffic''"
    by (simp add: contains_def sublist_code)
  have c: "contains ''Heavy traffic, tell the customer'' ''customer''"
    by (simp add: contains_def sublist_code)
  have m: "\<not> any_in merchant_words (lower ''Heavy traffic, tell the customer'')"
    by (simp add: any_in_def merchant_words_def contains_def sublist_code lower_def
        lower_char_def)
  from forced_calls_for_traffic_and_customer [OF t c sample_catalog_has, of "''12:00''"] t c m
  show ?thesis by simp
qed

text \<open>
  The specification's scenario fails when the text also holds a merchant keyword: the merchant
  call takes the third place and the cut to 3 calls drops both customer calls.
\<close>

theorem forced_calls_drop_customer:
  "contains ''Heavy traffic, the customer waits for the order'' ''traffic''
   \<and> contains ''Heavy traffic, the customer waits for the order'' ''customer''
   \<and> map call_name (create_forced_tool_calls sample_catalog ''12:00''
         ''Heavy traffic, the customer waits for the order'')
       = [''check_traffic'', ''calculate_alternative_route'', ''get_merchant_status'']
   \<and> ''notify_customer'' \<notin> set (map call_name (create_forced_tool_calls sample_catalog
         ''12:00'' ''Heavy traffic, the customer waits for the order''))
   \<and> ''contact_recipient'' \<notin> set (map call_name (create_forced_tool_calls sample_catalog
         ''12:00'' ''Heavy traffic, the customer waits for the order''))"
proof -
  have t: "contains ''Heavy traffic, the customer waits for the order'' ''traffic''"
    by (simp add: contains_def sublist_code)
  have c: "contains ''Heavy traffic, the customer waits for the order'' ''customer''"
    by (simp add: contains_def sublist_code)
  have m: "any_in merchant_words (lower ''Heavy traffic, the customer waits for the order'')"
    by (simp add: any_in_def merchant_words_def contains_def sublist_code lower_def
        lower_char_def)
  from forced_call_names [OF t c sample_catalog_has, of "''12:00''"] t c m
  show ?thesis by simp
qed


lemma match_percent_at_digits:
  "match_percent_at s = Some g \<Longrightarrow> g \<noteq> [] \<and> list_all is_digit g"
  by (auto simp: match_percent_at_def Let_def list_all_iff split: if_splits
      dest: set_takeWhileD)

lemma search_percent_digits:
  "search_percent s = Some g \<Longrightarrow> g \<noteq> [] \<and> list_all is_digit g"
  by (induction s) (auto split: option.splits dest: match_percent_at_digits)

lemma py_float_digits:
  assumes "g \<noteq> []" and "list_all is_digit g"
  shows "py_float g = Some (of_nat (nat_of_digits g))"
proof -
  from assms(2) have whole: "takeWhile is_digit g = g" and rest: "dropWhile is_digit g = []"
    by (simp_all add: list_all_iff)
  show ?thesis
    unfolding py_float_def Let_def whole rest using assms(1) by simp
qed

lemma extract_confidence_percent:
  "search_percent s = Some g \<Longrightarrow>
   extract_confidence_from_response s = Inr (of_nat (nat_of_digits g) / 100)"
  using search_percent_digits [of s g]
  by (simp add: extract_confidence_from_response_def py_float_digits)

text \<open>The extraction never raises.\<close>

lemma extract_confidence_returns: "\<exists>v. extract_confidence_from_response s = Inr v"
proof (cases "search_percent s")
  case no_percent: None
  show ?thesis
  proof (cases "search_confidence s")
    case None
    with no_percent have "extract_confidence_from_response s = Inr (8 / 10)"
      by (simp add: extract_confidence_from_response_def)
    then show ?thesis ..
  next
    case labelled: (Some g)
    show ?thesis
    proof (cases "py_float g")
      case None
      with no_percent labelled have "extract_confidence_from_response s = Inr (8 / 10)"
        by (simp add: extract_confidence_from_response_def)
      then show ?thesis ..
    next
      case (Some v)
      with no_percent labelled have "extract_confidence_from_response s = Inr (min 1 v)"
        by (simp add: extract_confidence_from_response_def)
      then show ?thesis ..
    qed
  qed
next
  case (Some g)
  then have "extract_confidence_from_response s = Inr (of_nat (nat_of_digits g) / 100)"
    by (rule extract_confidence_percent)
  then show ?thesis ..
qed

text \<open>Without a percentage in the text the result is at most 1.\<close>

lemma extract_confidence_decimal_clamped:
  "search_percent s = None \<Longrightarrow> extract_confidence_from_response s = Inr v \<Longrightarrow> v \<le> 1"
  by (auto simp: extract_confidence_from_response_def split: option.splits)

text \<open>The three examples of the specification.\<close>

lemma extract_confidence_example_percent:
  "extract_confidence_from_response ''I am 92% confident in this plan'' = Inr (92 / 100)"
  by (simp add: extract_confidence_from_response_def match_percent_at_def is_digit_def
      py_float_def nat_of_digits_def digit_value_def)

lemma extract_confidence_example_decimal:
  "extract_confidence_from_response ''confidence: 0.55'' = Inr (55 / 100)"
  by (simp add: extract_confidence_from_response_def match_percent_at_def is_digit_def
      match_confidence_at_def lower_def lower_char_def is_label_sep_def is_space_def
      is_number_char_def py_float_def nat_of_digits_def digit_value_def Let_def)

lemma extract_confidence_example_default:
  "extract_confidence_from_response ''The plan looks fine'' = Inr (8 / 10)"
  by (simp add: extract_confidence_from_response_def match_percent_at_def is_digit_def
      match_confidence_at_def lower_def lower_char_def Let_def)

text \<open>
  C6. The percentage branch returns the number divided by 100 without the clamp that
  the labelled-decimal branch applies: a percentage above 100 anywhere in the text
  yields a confidence above 1.
\<close>

theorem percentage_confidence_unclamped:
  "extract_confidence_from_response ''Delays may rise by 150%. Confidence: 0.9'' = Inr (3 / 2)
   \<and> \<not> (3 / 2 \<le> (1::rat))"
  by (simp add: extract_confidence_from_response_def match_percent_at_def is_digit_def
      py_float_def nat_of_digits_def digit_value_def)

text \<open>A labelled number that \<open>float\<close> rejects (here with a trailing full stop) gives the default.\<close>

lemma extract_confidence_trailing_dot:
  "extract_confidence_from_response ''confidence: 0.55.'' = Inr (8 / 10)"
  by (simp add: extract_confidence_from_response_def match_percent_at_def is_digit_def
      match_confidence_at_def lower_def lower_char_def is_label_sep_def is_space_def
      is_number_char_def py_float_def nat_of_digits_def digit_value_def Let_def)


text \<open>A fault of the oracle at the first consultation escapes the workflow.\<close>

lemma first_consultation_fault:
  assumes "llm_with_tools env (messages (fst (seed_transcript env tls sw))) = Inl e"
  shows "ainvoke env tls sw = Inl (e, snd (seed_transcript env tls sw))"
proof -
  obtain s1 w1 where seed: "seed_transcript env tls sw = (s1, w1)"
    by (cases "seed_transcript env tls sw")
  with assms have "llm_with_tools env (messages s1) = Inl e"
    by simp
  with seed have "call_model_node env tls sw = Inl (e, snd (seed_transcript env tls sw))"
    by (simp add: call_model_node_def)
  then have "step env tls \<lparr>node = CallModel, agent = fst sw, world = snd sw\<rparr>
               = Inl (e, snd (seed_transcript env tls sw))"
    by (simp add: step_def)
  then show ?thesis
    by (simp add: ainvoke_def run.simps [of env tls "\<lparr>node = CallModel, agent = fst sw, world = snd sw\<rparr>"])
qed

text \<open>
  C8. Whenever an exception escapes the workflow, \<open>resolve_scenario\<close> returns a result
  (it has no other outcome) with success false, confidence 0, no tools used, the
  scenario, a single reasoning line and a plan that hold the error text.
\<close>

theorem resolve_scenario_reports_failure:
  assumes "ainvoke env tls (initial_state scen max_iter, session_start env w0) = Inl (e, w1)"
  shows "result_success_flag (fst (resolve_scenario env tls scen max_iter w0)) = False
         \<and> result_confidence_score (fst (resolve_scenario env tls scen max_iter w0)) = 0
         \<and> tools_used (fst (resolve_scenario env tls scen max_iter w0)) = []
         \<and> result_scenario (fst (resolve_scenario env tls scen max_iter w0)) = scen
         \<and> result_reasoning_steps (fst (resolve_scenario env tls scen max_iter w0))
             = [''Error occurred: '' @ exn_text e]
         \<and> result_solution_plan (fst (resolve_scenario env tls scen max_iter w0))
             = JObj [(''error'', JStr (exn_text e))]"
  using assms by (simp add: resolve_scenario_def Let_def)

theorem resolve_scenario_reports_failure_witness:
  "isl (ainvoke (sample_env faulty_oracle) sample_catalog
          (initial_state ''late'' 10, session_start (sample_env faulty_oracle) sample_world))
   \<and> result_success_flag (fst (resolve_scenario (sample_env faulty_oracle) sample_catalog
          ''late'' 10 sample_world)) = False
   \<and> result_confidence_score (fst (resolve_scenario (sample_env faulty_oracle) sample_catalog
          ''late'' 10 sample_world)) = 0
   \<and> tools_used (fst (resolve_scenario (sample_env faulty_oracle) sample_catalog
          ''late'' 10 sample_world)) = []
   \<and> result_reasoning_steps (fst (resolve_scenario (sample_env faulty_oracle) sample_catalog
          ''late'' 10 sample_world)) = [''Error occurred: oracle unreachable'']"
proof -
  let ?env = "sample_env faulty_oracle"
  let ?sw = "(initial_state ''late'' 10, session_start ?env sample_world)"
  have "llm_with_tools ?env (messages (fst (seed_transcript ?env sample_catalog ?sw)))
          = Inl (Exn ''ConnectionError'' ''oracle unreachable'')"
    by (simp add: sample_env_def faulty_oracle_def)
  from first_consultation_fault [OF this]
  have esc: "ainvoke ?env sample_catalog ?sw
               = Inl (Exn ''ConnectionError'' ''oracle unreachable'',
                      snd (seed_transcript ?env sample_catalog ?sw))" .
  from resolve_scenario_reports_failure [OF esc] esc show ?thesis
    by simp
qed

end
